theory Spec2Isabelle
  imports Main "HOL-Library.Char_ord"
begin

section \<open>Strings\<close>

text \<open>
  JavaScript strings are modelled as byte strings (\<open>string\<close>, the UTF-8 text). On ASCII
  text the operations below compute what the JavaScript operations compute. A byte above 127
  is an ordinary symbol here: no letter, no digit, no white space. The three localized
  keywords of the analyzers and the comments of the emitted files are written as their UTF-8
  bytes.

  Outside ASCII the model and the code part: \<open>\s\<close> and \<open>trim\<close> of the code also take the
  white space above U+007F (U+00A0, U+3000 and others), which is no white space here, and
  \<open>substring(0, 20)\<close> counts UTF-16 units where \<open>take 20\<close> counts bytes. The properties
  below are about documents whose names and texts are ASCII.
\<close>

definition is_lower :: "char \<Rightarrow> bool" where
  "is_lower c = (CHR ''a'' \<le> c \<and> c \<le> CHR ''z'')"

definition is_upper :: "char \<Rightarrow> bool" where
  "is_upper c = (CHR ''A'' \<le> c \<and> c \<le> CHR ''Z'')"

definition is_digit :: "char \<Rightarrow> bool" where
  "is_digit c = (CHR ''0'' \<le> c \<and> c \<le> CHR ''9'')"

definition is_alnum :: "char \<Rightarrow> bool" where
  "is_alnum c = (is_lower c \<or> is_upper c \<or> is_digit c)"

text \<open>The class \<open>\s\<close> on ASCII: tab, line feed, vertical tab, form feed, carriage return, space.\<close>

definition is_space :: "char \<Rightarrow> bool" where
  "is_space c = ((CHR 0x09 \<le> c \<and> c \<le> CHR 0x0D) \<or> c = CHR '' '')"

text \<open>The characters the regular expression \<open>.\<close> does not match.\<close>

definition is_line_terminator :: "char \<Rightarrow> bool" where
  "is_line_terminator c = (c = CHR 0x0A \<or> c = CHR 0x0D)"

definition toUpperCase_char :: "char \<Rightarrow> char" where
  "toUpperCase_char c =
     (case map_of (zip ''abcdefghijklmnopqrstuvwxyz'' ''ABCDEFGHIJKLMNOPQRSTUVWXYZ'') c of
        Some u \<Rightarrow> u | None \<Rightarrow> c)"

definition toLowerCase_char :: "char \<Rightarrow> char" where
  "toLowerCase_char c =
     (case map_of (zip ''ABCDEFGHIJKLMNOPQRSTUVWXYZ'' ''abcdefghijklmnopqrstuvwxyz'') c of
        Some l \<Rightarrow> l | None \<Rightarrow> c)"

definition toUpperCase :: "string \<Rightarrow> string" where
  "toUpperCase s = map toUpperCase_char s"

definition toLowerCase :: "string \<Rightarrow> string" where
  "toLowerCase s = map toLowerCase_char s"

text \<open>\<open>String.prototype.trim\<close>.\<close>

definition trim :: "string \<Rightarrow> string" where
  "trim s = rev (dropWhile is_space (rev (dropWhile is_space s)))"

text \<open>\<open>Array.prototype.join\<close> on strings.\<close>

fun join :: "string \<Rightarrow> string list \<Rightarrow> string" where
  "join sep [] = []"
| "join sep [x] = x"
| "join sep (x # y # ys) = x @ sep @ join sep (y # ys)"

text \<open>\<open>String.prototype.includes\<close>.\<close>

fun starts_with :: "string \<Rightarrow> string \<Rightarrow> bool" where
  "starts_with s [] = True"
| "starts_with [] (k # ks) = False"
| "starts_with (c # cs) (k # ks) = (if c = k then starts_with cs ks else False)"

fun str_includes :: "string \<Rightarrow> string \<Rightarrow> bool" where
  "str_includes [] k = (k = [])"
| "str_includes (c # cs) k = (if starts_with (c # cs) k then True else str_includes cs k)"

section \<open>nameUtils\<close>

text \<open>
  The match of \<open>/[\s-]+(.)/\<close> anchored at the head of the text: the captured character and
  the text after the match. The run of separators is taken greedily; when no character
  follows it, the matcher backtracks and captures the last separator of the run that
  \<open>.\<close> accepts.
\<close>

definition is_sep :: "char \<Rightarrow> bool" where
  "is_sep c = (is_space c \<or> c = CHR ''-'')"

definition sep_match :: "string \<Rightarrow> (char \<times> string) option" where
  "sep_match s =
     (let run = takeWhile is_sep s; rest = dropWhile is_sep s in
      if run = [] then None
      else if rest \<noteq> [] \<and> \<not> is_line_terminator (hd rest) then Some (hd rest, tl rest)
      else (case filter (\<lambda>k. \<not> is_line_terminator (run ! k)) (rev [1..<length run]) of
              [] \<Rightarrow> None
            | k # _ \<Rightarrow> Some (run ! k, drop (Suc k) run @ rest)))"

lemma sep_match_shorter: "sep_match s = Some (ch, r) \<Longrightarrow> length r < length s"
proof -
  assume a: "sep_match s = Some (ch, r)"
  have len: "length s = length (takeWhile is_sep s) + length (dropWhile is_sep s)"
    by (metis length_append takeWhile_dropWhile_id)
  show ?thesis
  proof (cases "dropWhile is_sep s \<noteq> [] \<and> \<not> is_line_terminator (hd (dropWhile is_sep s))")
    case True
    with a have "r = tl (dropWhile is_sep s)"
      by (auto simp: sep_match_def Let_def split: if_splits)
    with True len show ?thesis by (cases "dropWhile is_sep s") auto
  next
    case False
    with a obtain k where "r = drop (Suc k) (takeWhile is_sep s) @ dropWhile is_sep s"
      and "takeWhile is_sep s \<noteq> []"
      by (auto simp: sep_match_def Let_def split: if_splits list.splits)
    with len show ?thesis by (cases "takeWhile is_sep s") auto
  qed
qed

text \<open>\<open>.replace(/[\s-]+(.)/g, (_, chr) => chr.toUpperCase())\<close>\<close>

function replace_sep_upper :: "string \<Rightarrow> string" where
  "replace_sep_upper [] = []"
| "replace_sep_upper (c # cs) =
     (case sep_match (c # cs) of
        Some (ch, rest) \<Rightarrow> toUpperCase_char ch # replace_sep_upper rest
      | None \<Rightarrow> c # replace_sep_upper cs)"
  by pat_completeness auto
termination
  by (relation "measure length") (auto dest: sep_match_shorter)

text \<open>\<open>.replace(/[^a-zA-Z0-9\s-]+/g, '')\<close>\<close>

definition strip_special :: "string \<Rightarrow> string" where
  "strip_special s = filter (\<lambda>c. is_alnum c \<or> is_space c \<or> c = CHR ''-'') s"

definition toPascalCase :: "string \<Rightarrow> string" where
  "toPascalCase str =
     (if str = [] then ''Component''
      else let cleaned = trim (strip_special str) in
        if cleaned = [] then ''Component''
        else let s1 = replace_sep_upper cleaned;
                 s2 = (case s1 of c # cs \<Rightarrow> if is_lower c then toUpperCase_char c # cs else s1 | [] \<Rightarrow> s1);
                 s3 = (case s2 of c # cs \<Rightarrow> if is_digit c then CHR ''N'' # s2 else s2 | [] \<Rightarrow> s2)
             in s3)"

text \<open>\<open>.replace(/([a-z])([A-Z])/g, '$1-$2')\<close>: matches do not overlap.\<close>

fun hyphenate_camel :: "string \<Rightarrow> string" where
  "hyphenate_camel (a # b # cs) =
     (if is_lower a \<and> is_upper b then a # CHR ''-'' # b # hyphenate_camel cs
      else a # hyphenate_camel (b # cs))"
| "hyphenate_camel cs = cs"

text \<open>\<open>.replace(/[...]+/g, '-')\<close>: every maximal run of characters of the class becomes one hyphen.\<close>

function squash_runs :: "(char \<Rightarrow> bool) \<Rightarrow> string \<Rightarrow> string" where
  "squash_runs p [] = []"
| "squash_runs p (c # cs) =
     (if p c then CHR ''-'' # squash_runs p (dropWhile p cs) else c # squash_runs p cs)"
  by pat_completeness auto
termination
  by (relation "measure (\<lambda>(p, s). length s)") (auto simp: less_Suc_eq_le length_dropWhile_le)

text \<open>\<open>.replace(/^-+|-+$/g, '')\<close>\<close>

definition strip_hyphens :: "string \<Rightarrow> string" where
  "strip_hyphens s =
     rev (dropWhile (\<lambda>c. c = CHR ''-'') (rev (dropWhile (\<lambda>c. c = CHR ''-'') s)))"

definition toKebabCase :: "string \<Rightarrow> string" where
  "toKebabCase str =
     (if str = [] then []
      else toLowerCase
        (squash_runs (\<lambda>c. c = CHR ''-'')
          (strip_hyphens
            (squash_runs (\<lambda>c. is_space c \<or> c = CHR ''_'')
              (squash_runs (\<lambda>c. \<not> (is_alnum c \<or> c = CHR ''-''))
                (hyphenate_camel str))))))"

text \<open>\<open>.split(/[\s-]+/)\<close>: the fields between the maximal runs of separators.\<close>

function split_sep :: "string \<Rightarrow> string list" where
  "split_sep s =
     (let w = takeWhile (\<lambda>c. \<not> is_sep c) s; r = dropWhile (\<lambda>c. \<not> is_sep c) s in
      if r = [] then [w] else w # split_sep (dropWhile is_sep r))"
  by pat_completeness auto
termination
proof (relation "measure length")
  show "wf (measure length)" by simp
next
  fix s :: string and w r
  assume r: "r = dropWhile (\<lambda>c. \<not> is_sep c) s" and ne: "r \<noteq> []"
  from ne obtain c cs where rc: "r = c # cs" by (cases r) auto
  with r have "is_sep c" by (metis hd_dropWhile list.sel(1) ne)
  then have "length (dropWhile is_sep r) \<le> length cs"
    using rc by (simp add: length_dropWhile_le)
  moreover have "length r \<le> length s" using r by (simp add: length_dropWhile_le)
  ultimately show "(dropWhile is_sep r, s) \<in> measure length" using rc by simp
qed

definition stop_words :: "string list" where
  "stop_words = [''the'', ''and'', ''are'', ''for'', ''with'', ''that'', ''this'', ''from'', ''have'', ''been'']"

definition capitalize :: "string \<Rightarrow> string" where
  "capitalize word = toUpperCase (take 1 word) @ drop 1 word"

definition toCamelCase :: "string \<Rightarrow> string" where
  "toCamelCase str =
     (if str = [] then []
      else let cleaned = trim (strip_special str) in
        if cleaned = [] then ''item''
        else let s1 = replace_sep_upper cleaned;
                 s2 = (case s1 of c # cs \<Rightarrow> if is_upper c then toLowerCase_char c # cs else s1 | [] \<Rightarrow> s1);
                 camelCase = (case s2 of c # cs \<Rightarrow> if is_digit c then CHR ''n'' # s2 else s2 | [] \<Rightarrow> s2)
             in if length camelCase > 30
                then let words = split_sep (toLowerCase cleaned);
                         importantWords = filter (\<lambda>word. length word > 3 \<and> \<not> List.member stop_words word) words;
                         shortened =
                           (if importantWords \<noteq> []
                            then (case take 3 importantWords of
                                    [] \<Rightarrow> []
                                  | w # ws \<Rightarrow> concat (w # map capitalize ws))
                            else take 30 camelCase)
                     in (case shortened of
                           c # cs \<Rightarrow> if is_lower c \<or> is_upper c then shortened else ''item'' @ shortened
                         | [] \<Rightarrow> ''item'' @ shortened)
                else camelCase)"

definition reservedKeywords :: "string list" where
  "reservedKeywords =
     [''break'', ''case'', ''catch'', ''class'', ''const'', ''continue'', ''debugger'', ''default'',
      ''delete'', ''do'', ''else'', ''export'', ''extends'', ''finally'', ''for'', ''function'',
      ''if'', ''import'', ''in'', ''instanceof'', ''new'', ''return'', ''super'', ''switch'',
      ''this'', ''throw'', ''try'', ''typeof'', ''var'', ''void'', ''while'', ''with'', ''yield'',
      ''enum'', ''implements'', ''interface'', ''let'', ''package'', ''private'', ''protected'',
      ''public'', ''static'', ''await'', ''abstract'', ''boolean'', ''byte'', ''char'', ''double'',
      ''final'', ''float'', ''goto'', ''int'', ''long'', ''native'', ''short'', ''synchronized'',
      ''throws'', ''transient'', ''volatile'']"

definition sanitizeVariableName :: "string \<Rightarrow> string" where
  "sanitizeVariableName name =
     (if name = [] then ''item''
      else if List.member reservedKeywords name then name @ ''Value''
      else name)"

section \<open>The design document\<close>

text \<open>
  A node of the design document. The children of a node are a list; an absent \<open>children\<close>
  field and an empty array are the same list, since every test of the source treats them
  alike (\<open>node.children && node.children.length > 0\<close>, \<open>node.children?.length || 0\<close>),
  and a children array holds nodes only.

  The field \<open>type\<close> may be absent, a string, or (in a malformed document) a number: the
  source calls \<open>node.type?.toLowerCase()\<close>, which throws on a number. Every other field has
  the type the design tool gives it. A string field that is absent is the empty string and
  a number that is absent is \<open>0\<close> where the source only tests the field for truthiness;
  where the source tests \<open>!== undefined\<close> the field is an option. Numbers are integers
  (a design document also has fractions, for opacities and boxes), printed with all their
  digits, as the code prints the integers below \<open>10^21\<close>. The type tags \<open>constructor\<close> and
  \<open>__proto__\<close> are not in the model: the lookup of \<open>mapFigmaTypeToHTML\<close> finds them as
  inherited members of its table, where the model answers \<open>div\<close>.

  A paint keeps, for its colour and opacity, the text \<open>rgbaToCSS(color, opacity)\<close> that the
  style sheet shows for them: the source reads the two fields through that function only.
\<close>

datatype jsval = Undefined | Str string | Num int

record paint =
  paint_type :: string
  paint_visible :: "bool option"
  paint_css :: string

record bbox =
  bbox_x :: int
  bbox_y :: int
  bbox_width :: int
  bbox_height :: int

record textstyle =
  fontFamily :: string
  fontSize :: int
  fontWeight :: int
  letterSpacing :: "int option"
  lineHeightPx :: int

record layout =
  layoutMode :: string
  primaryAxisAlignItems :: string
  counterAxisAlignItems :: string
  itemSpacing :: int
  layoutWrap :: string
  paddingTop :: int
  paddingRight :: int
  paddingBottom :: int
  paddingLeft :: int
  layoutPaddingTop :: int
  layoutPaddingRight :: int
  layoutPaddingBottom :: int
  layoutPaddingLeft :: int

record sizing =
  constraints_horizontal :: string
  constraints_vertical :: string
  minWidth :: int
  maxWidth :: int
  minHeight :: int
  maxHeight :: int
  clipsContent :: "bool option"
  node_position :: string

record attrs =
  node_id :: string
  node_name :: string
  node_type :: jsval
  characters :: string
  fills :: "paint list"
  strokes :: "paint list"
  strokeWeight :: int
  strokeAlign :: string
  absoluteBoundingBox :: "bbox option"
  relativeBoundingBox :: "bbox option"
  cornerRadius :: "int option"
  node_opacity :: "int option"
  node_visible :: "bool option"
  node_style :: "textstyle option"
  textAlignHorizontal :: string
  textDecoration :: string
  node_layout :: layout
  node_sizing :: sizing

datatype node = Node (attrs: attrs) (children: "node list")

section \<open>nodeUtils\<close>

text \<open>
  \<open>preprocessNode\<close> assigns to the fields of the node it is given and returns that same
  object (\<open>return node\<close>). The model passes the state of the object: the argument is the
  node before the call, the result is the node after the call, which is also the value the
  call returns. The second argument is the parent node's fields (\<open>None\<close> at the root, where
  \<open>parentNode\<close> is \<open>null\<close>).
\<close>

definition is_visible :: "paint \<Rightarrow> bool" where
  "is_visible p = (paint_visible p \<noteq> Some False)"

fun preprocessNode :: "node \<Rightarrow> attrs option \<Rightarrow> node" where
  "preprocessNode (Node a cs) parentNode =
     (let a1 = (case parentNode of
                  None \<Rightarrow> a
                | Some p \<Rightarrow>
                    (case (absoluteBoundingBox a, absoluteBoundingBox p) of
                       (Some nb, Some pb) \<Rightarrow>
                         a\<lparr>relativeBoundingBox :=
                             Some \<lparr>bbox_x = bbox_x nb - bbox_x pb,
                                   bbox_y = bbox_y nb - bbox_y pb,
                                   bbox_width = bbox_width nb,
                                   bbox_height = bbox_height nb\<rparr>\<rparr>
                     | _ \<Rightarrow> a));
          a2 = a1\<lparr>fills := filter is_visible (fills a1)\<rparr>;
          a3 = a2\<lparr>strokes := filter is_visible (strokes a2)\<rparr>
      in Node a3 (map (\<lambda>child. preprocessNode child (Some a3)) cs))"

definition mapFigmaTypeToHTML :: "string \<Rightarrow> string" where
  "mapFigmaTypeToHTML t =
     (let k = toLowerCase t in
      if k = ''frame'' then ''div''
      else if k = ''group'' then ''div''
      else if k = ''text'' then ''p''
      else if k = ''rectangle'' then ''div''
      else if k = ''ellipse'' then ''div''
      else if k = ''vector'' then ''svg''
      else if k = ''component'' then ''div''
      else if k = ''instance'' then ''div''
      else if k = ''page'' then ''div''
      else ''div'')"

definition isSelfClosing :: "string \<Rightarrow> bool" where
  "isSelfClosing tagName = List.member [''img'', ''input'', ''br'', ''hr'', ''meta'', ''link''] tagName"

definition escapeHTML_char :: "char \<Rightarrow> string" where
  "escapeHTML_char c =
     (if c = CHR ''&'' then ''&amp;''
      else if c = CHR ''<'' then ''&lt;''
      else if c = CHR ''>'' then ''&gt;''
      else if c = CHR 0x22 then ''&quot;''
      else if c = CHR 0x27 then ''&#039;''
      else [c])"

text \<open>
  The five replacements of \<open>escapeHTML\<close> run one after the other, \<open>&\<close> first; no replacement
  text holds a character that a later replacement looks for, so together they map each
  character on its own.
\<close>

definition escapeHTML :: "string \<Rightarrow> string" where
  "escapeHTML s = concat (map escapeHTML_char s)"

definition detectHorizontalLayout :: "node \<Rightarrow> bool" where
  "detectHorizontalLayout n =
     (case children n of
        firstChild # secondChild # _ \<Rightarrow>
          (case (absoluteBoundingBox (attrs firstChild), absoluteBoundingBox (attrs secondChild)) of
             (Some b1, Some b2) \<Rightarrow>
               (let yDiff = \<bar>bbox_y b2 - bbox_y b1\<bar>; xDiff = \<bar>bbox_x b2 - bbox_x b1\<bar>
                in yDiff < 10 \<and> xDiff > 10)
           | _ \<Rightarrow> False)
      | _ \<Rightarrow> False)"

text \<open>The decimal text of an integer, as a template literal prints it.\<close>

function show_nat :: "nat \<Rightarrow> string" where
  "show_nat n = (if n < 10 then [''0123456789'' ! n] else show_nat (n div 10) @ [''0123456789'' ! (n mod 10)])"
  by pat_completeness auto
termination
  by (relation "measure id") auto

definition show_int :: "int \<Rightarrow> string" where
  "show_int i = (if i < 0 then CHR ''-'' # show_nat (nat (- i)) else show_nat (nat i))"

text \<open>A node with no field set, to build examples from.\<close>

definition no_layout :: layout where
  "no_layout = \<lparr>layoutMode = [], primaryAxisAlignItems = [], counterAxisAlignItems = [],
     itemSpacing = 0, layoutWrap = [], paddingTop = 0, paddingRight = 0, paddingBottom = 0,
     paddingLeft = 0, layoutPaddingTop = 0, layoutPaddingRight = 0, layoutPaddingBottom = 0,
     layoutPaddingLeft = 0\<rparr>"

definition no_sizing :: sizing where
  "no_sizing = \<lparr>constraints_horizontal = [], constraints_vertical = [], minWidth = 0,
     maxWidth = 0, minHeight = 0, maxHeight = 0, clipsContent = None, node_position = []\<rparr>"

definition blank :: attrs where
  "blank = \<lparr>node_id = [], node_name = [], node_type = Undefined, characters = [],
     fills = [], strokes = [], strokeWeight = 0, strokeAlign = [],
     absoluteBoundingBox = None, relativeBoundingBox = None, cornerRadius = None,
     node_opacity = None, node_visible = None, node_style = None,
     textAlignHorizontal = [], textDecoration = [],
     node_layout = no_layout, node_sizing = no_sizing\<rparr>"

section \<open>The generation context\<close>

text \<open>
  A JavaScript \<open>Map\<close> is its list of entries in insertion order: \<open>set\<close> replaces the value of
  a key that is present, in place, and appends a new key at the end (\<open>map_set\<close>); \<open>get\<close>
  is \<open>map_of\<close>; \<open>clear\<close> leaves the empty list.
\<close>

fun map_set :: "'k \<Rightarrow> 'v \<Rightarrow> ('k \<times> 'v) list \<Rightarrow> ('k \<times> 'v) list" where
  "map_set k v [] = [(k, v)]"
| "map_set k v (e # es) = (if fst e = k then (k, v) # es else e # map_set k v es)"

definition map_has :: "('k \<times> 'v) list \<Rightarrow> 'k \<Rightarrow> bool" where
  "map_has m k = (map_of m k \<noteq> None)"

datatype kind = Button | Input | Accordion | Toggle

record interactive =
  ie_type :: kind
  ie_id :: string
  ie_name :: string

datatype defaultValue = DString string | DBool bool

record stateVariable =
  sv_id :: string
  sv_type :: string
  sv_defaultValue :: defaultValue

record eventHandler =
  eh_id :: string
  eh_handlerName :: string

record componentInfo =
  ci_name :: string
  ci_node :: node
  ci_parentId :: "string option"

record gencontext =
  interactiveElements :: "(string \<times> interactive) list"
  stateVariables :: "stateVariable list"
  eventHandlers :: "eventHandler list"
  components :: "(string \<times> componentInfo) list"
  componentCounter :: nat
  useObjectState :: bool

datatype error = TypeError

section \<open>InteractiveElementAnalyzer\<close>

definition isButton :: "string \<Rightarrow> bool" where
  "isButton name =
     list_ex (\<lambda>keyword. str_includes name keyword)
       [''button'', ''btn'', ''click'', ''submit'', ''confirm'', ''cancel'', ''ok'', ''apply'']"

definition isInput :: "string \<Rightarrow> bool" where
  "isInput name =
     list_ex (\<lambda>keyword. str_includes name keyword)
       [''input'', ''textfield'', ''text-field'', ''form'', ''search'', ''textarea'']"

definition isAccordion :: "string \<Rightarrow> bool" where
  "isAccordion name =
     (str_includes name ''accordion''
      \<or> str_includes name [CHR 0xE6, CHR 0x8A, CHR 0x98, CHR 0xE5, CHR 0x8F, CHR 0xA0]
      \<or> str_includes name [CHR 0xE5, CHR 0xB1, CHR 0x95, CHR 0xE5, CHR 0xBC, CHR 0x80])"

definition isCollapsible :: "string \<Rightarrow> bool" where
  "isCollapsible name =
     (str_includes name ''collapse'' \<or> str_includes name ''collapsible''
      \<or> str_includes name ''expand'')"

definition isToggle :: "string \<Rightarrow> bool" where
  "isToggle name = (str_includes name ''toggle'' \<or> str_includes name ''switch'')"

definition isSwitch :: "string \<Rightarrow> bool" where
  "isSwitch name =
     (str_includes name ''switch''
      \<or> str_includes name [CHR 0xE5, CHR 0xBC, CHR 0x80, CHR 0xE5, CHR 0x85, CHR 0xB3])"

text \<open>\<open>node.name || fallback\<close>\<close>

definition name_or :: "string \<Rightarrow> string \<Rightarrow> string" where
  "name_or name fallback = (if name = [] then fallback else name)"

text \<open>
  The three collections \<open>analyze\<close> writes to: the descriptor map, the state variables and
  the event handlers. What one node contributes (\<open>analyze_node\<close>) is the four tests of the
  source in their order; the children follow, left to right.
\<close>

type_synonym analysis = "(string \<times> interactive) list \<times> stateVariable list \<times> eventHandler list"

definition register_button :: "attrs \<Rightarrow> analysis \<Rightarrow> analysis" where
  "register_button a st =
     (case st of (ie, sv, eh) \<Rightarrow>
        let buttonId = sanitizeVariableName (toCamelCase (name_or (node_name a) ''button'')) in
        (map_set (node_id a) \<lparr>ie_type = Button, ie_id = buttonId, ie_name = node_name a\<rparr> ie,
         sv,
         eh @ [\<lparr>eh_id = buttonId, eh_handlerName = ''handleClick''\<rparr>]))"

definition register_input :: "attrs \<Rightarrow> analysis \<Rightarrow> analysis" where
  "register_input a st =
     (case st of (ie, sv, eh) \<Rightarrow>
        let inputId = sanitizeVariableName (toCamelCase (name_or (node_name a) ''input'')) in
        (map_set (node_id a) \<lparr>ie_type = Input, ie_id = inputId, ie_name = node_name a\<rparr> ie,
         sv @ [\<lparr>sv_id = inputId, sv_type = ''string'', sv_defaultValue = DString []\<rparr>],
         eh @ [\<lparr>eh_id = inputId, eh_handlerName = ''handleChange''\<rparr>]))"

definition register_accordion :: "attrs \<Rightarrow> analysis \<Rightarrow> analysis" where
  "register_accordion a st =
     (case st of (ie, sv, eh) \<Rightarrow>
        let accordionId = sanitizeVariableName (toCamelCase (name_or (node_name a) ''accordion'')) in
        (map_set (node_id a) \<lparr>ie_type = Accordion, ie_id = accordionId, ie_name = node_name a\<rparr> ie,
         sv @ [\<lparr>sv_id = accordionId, sv_type = ''boolean'', sv_defaultValue = DBool False\<rparr>],
         eh @ [\<lparr>eh_id = accordionId, eh_handlerName = ''handleToggle''\<rparr>]))"

definition register_toggle :: "attrs \<Rightarrow> analysis \<Rightarrow> analysis" where
  "register_toggle a st =
     (case st of (ie, sv, eh) \<Rightarrow>
        let toggleId = sanitizeVariableName (toCamelCase (name_or (node_name a) ''toggle'')) in
        (map_set (node_id a) \<lparr>ie_type = Toggle, ie_id = toggleId, ie_name = node_name a\<rparr> ie,
         sv @ [\<lparr>sv_id = toggleId, sv_type = ''boolean'', sv_defaultValue = DBool False\<rparr>],
         eh @ [\<lparr>eh_id = toggleId, eh_handlerName = ''handleToggle''\<rparr>]))"

definition analyze_node :: "attrs \<Rightarrow> analysis \<Rightarrow> analysis" where
  "analyze_node a st =
     (let nodeName = toLowerCase (node_name a);
          st1 = (if isButton nodeName then register_button a st else st);
          st2 = (if isInput nodeName then register_input a st1 else st1);
          st3 = (if isAccordion nodeName \<or> isCollapsible nodeName then register_accordion a st2 else st2);
          st4 = (if isToggle nodeName \<or> isSwitch nodeName then register_toggle a st3 else st3)
      in st4)"

fun analyze :: "node \<Rightarrow> analysis \<Rightarrow> analysis" where
  "analyze (Node a cs) st = fold analyze cs (analyze_node a st)"

section \<open>ComponentAnalyzer\<close>

definition isComponentCandidate :: "string \<Rightarrow> bool" where
  "isComponentCandidate name =
     list_ex (\<lambda>keyword. str_includes name keyword)
       [''card'', ''item'', ''list-item'', ''listitem'', ''row'', ''cell'',
        ''header'', ''footer'', ''sidebar'', ''nav'', ''menu'', ''button-group'',
        ''form-group'', ''input-group'', ''modal'', ''dialog'', ''popup'',
        ''accordion'', ''tab'', ''tab-item'', ''panel'', ''section'',
        ''widget'', ''block'', ''box'', ''container'', ''wrapper'']"

definition hasRepeatedStructure :: "node \<Rightarrow> bool" where
  "hasRepeatedStructure n =
     (case children n of
        firstChild # secondChild # _ \<Rightarrow>
          node_type (attrs firstChild) = node_type (attrs secondChild)
          \<and> \<bar>int (length (children firstChild)) - int (length (children secondChild))\<bar> \<le> 1
      | _ \<Rightarrow> False)"

text \<open>\<open>node.type?.toLowerCase()\<close>: \<open>undefined\<close> for an absent type, a \<open>TypeError\<close> for a number.\<close>

definition type_lower :: "jsval \<Rightarrow> error + string option" where
  "type_lower t =
     (case t of Undefined \<Rightarrow> Inr None | Str s \<Rightarrow> Inr (Some (toLowerCase s)) | Num n \<Rightarrow> Inl TypeError)"

text \<open>
  \<open>toPascalCase(node.name || `Component${++componentCounter.value}`)\<close>: the counter moves
  only when the node has no name.
\<close>

definition derive_component_name :: "attrs \<Rightarrow> nat \<Rightarrow> string \<times> nat" where
  "derive_component_name a counter =
     (if node_name a = [] then (toPascalCase (''Component'' @ show_nat (Suc counter)), Suc counter)
      else (toPascalCase (node_name a), counter))"

text \<open>
  \<open>identify\<close> writes to the components map and the counter. A throw leaves them as they
  are at that moment, so the result is the pair of both with the error, if any.
\<close>

type_synonym registry = "(string \<times> componentInfo) list \<times> nat"

text \<open>The three rules of \<open>identify\<close>, in their order; \<open>nodeType\<close> is the lowered type.\<close>

definition shouldComponentize :: "node \<Rightarrow> string option \<Rightarrow> nat \<Rightarrow> bool" where
  "shouldComponentize n nodeType depth =
     (let nodeName = toLowerCase (node_name (attrs n)) in
      if nodeType = Some ''component'' \<or> nodeType = Some ''instance'' then True
      else if isComponentCandidate nodeName then True
      else if length (children n) \<ge> 3 \<and> depth < 3 then hasRepeatedStructure n
      else False)"

fun identify :: "node \<Rightarrow> nat \<Rightarrow> string option \<Rightarrow> registry \<Rightarrow> registry \<times> error option"
  and identify_children :: "node list \<Rightarrow> nat \<Rightarrow> string option \<Rightarrow> registry \<Rightarrow> registry \<times> error option"
where
  "identify (Node a cs) depth parentId reg =
     (case type_lower (node_type a) of
        Inl e \<Rightarrow> (reg, Some e)
      | Inr nodeType \<Rightarrow>
          if shouldComponentize (Node a cs) nodeType depth
          then (case derive_component_name a (snd reg) of
                  (componentName, counter) \<Rightarrow>
                    if componentName \<noteq> []
                    then ((map_set (node_id a)
                             \<lparr>ci_name = componentName, ci_node = Node a cs, ci_parentId = parentId\<rparr>
                             (fst reg), counter), None)
                    else identify_children cs (depth + 1) (Some (node_id a)) (fst reg, counter))
          else identify_children cs (depth + 1) (Some (node_id a)) reg)"
| "identify_children [] depth parentId reg = (reg, None)"
| "identify_children (c # cs) depth parentId reg =
     (case identify c depth parentId reg of
        (reg1, Some e) \<Rightarrow> (reg1, Some e)
      | (reg1, None) \<Rightarrow> identify_children cs depth parentId reg1)"

section \<open>JSXTransformer\<close>

definition dq :: string where "dq = [CHR 0x22]"

definition sq :: string where "sq = [CHR 0x27]"

definition nl :: string where "nl = [CHR 0x0A]"

text \<open>\<open>/^frame-\d+$/\<close>\<close>

definition is_frame_number :: "string \<Rightarrow> bool" where
  "is_frame_number name =
     (take 6 name = ''frame-'' \<and> drop 6 name \<noteq> [] \<and> list_all is_digit (drop 6 name))"

definition inferSemanticName :: "node \<Rightarrow> string option" where
  "inferSemanticName n =
     (let byLayout =
            (if layoutMode (node_layout (attrs n)) = ''HORIZONTAL'' then Some ''row''
             else if layoutMode (node_layout (attrs n)) = ''VERTICAL'' then Some ''column''
             else None)
      in case children n of
           [] \<Rightarrow> byLayout
         | firstChild # _ \<Rightarrow>
             if node_type (attrs firstChild) = Str ''TEXT'' \<and> characters (attrs firstChild) \<noteq> []
             then (let text = take 20 (toLowerCase (characters (attrs firstChild))) in
                   if toKebabCase text = [] then None else Some (toKebabCase text))
             else if list_ex (\<lambda>c. str_includes (toLowerCase (node_name (attrs c))) ''button'') (children n)
             then Some ''button-group''
             else if list_ex (\<lambda>c. str_includes (toLowerCase (node_name (attrs c))) ''input'') (children n)
             then Some ''input-group''
             else byLayout)"

text \<open>
  \<open>getClassName\<close>: \<open>JSXTransformer\<close> and \<open>CSSTransformer\<close> each carry this method, with the
  same text.
\<close>

definition getClassName :: "node \<Rightarrow> bool \<Rightarrow> string" where
  "getClassName n cssClass =
     (if node_name (attrs n) = [] then []
      else let name0 = toKebabCase (node_name (attrs n));
               name1 = (if is_frame_number name0 \<or> name0 = ''group'' \<or> name0 = ''container''
                        then (case inferSemanticName n of
                                Some s \<Rightarrow> if s = [] then ''wrapper'' else s
                              | None \<Rightarrow> ''wrapper'')
                        else name0);
               name2 = (case name1 of
                          c # _ \<Rightarrow> if is_digit c then ''el-'' @ name1 else name1
                        | [] \<Rightarrow> name1);
               name3 = (if name2 = []
                        then (if node_id (attrs n) \<noteq> []
                              then ''node-'' @ take 20 (map (\<lambda>c. if is_alnum c then c else CHR ''-'') (node_id (attrs n)))
                              else ''element'')
                        else name2)
           in if cssClass then ''.'' @ name3 else '' className='' @ dq @ name3 @ dq)"

definition getComponentProps :: "node \<Rightarrow> string" where
  "getComponentProps n =
     (let className = getClassName n False;
          props = (if className \<noteq> [] then [trim className] else [])
      in if props \<noteq> [] then '' '' @ join '' '' props else [])"

definition hasMeaningfulStyle :: "node \<Rightarrow> bool" where
  "hasMeaningfulStyle n =
     (let a = attrs n; l = node_layout a;
          hasFills = (fills a \<noteq> []);
          hasStrokes = (strokes a \<noteq> []);
          hasCornerRadius = (case cornerRadius a of Some r \<Rightarrow> r > 0 | None \<Rightarrow> False);
          hasLayout = (layoutMode l = ''HORIZONTAL'' \<or> layoutMode l = ''VERTICAL'');
          hasPadding = (paddingTop l \<noteq> 0 \<or> paddingRight l \<noteq> 0 \<or> paddingBottom l \<noteq> 0
                        \<or> paddingLeft l \<noteq> 0 \<or> layoutPaddingTop l \<noteq> 0 \<or> layoutPaddingRight l \<noteq> 0
                        \<or> layoutPaddingBottom l \<noteq> 0 \<or> layoutPaddingLeft l \<noteq> 0);
          hasOpacity = (case node_opacity a of Some v \<Rightarrow> v < 1 | None \<Rightarrow> False);
          hasPosition = (node_position (node_sizing a) = ''ABSOLUTE'' \<or> node_position (node_sizing a) = ''RELATIVE'')
      in hasFills \<or> hasStrokes \<or> hasCornerRadius \<or> hasLayout \<or> hasPadding \<or> hasOpacity
         \<or> hasPosition \<or> absoluteBoundingBox a \<noteq> None)"

text \<open>
  The transformer object: the two maps and the flag its constructor stores.
\<close>

record transformer =
  jt_interactiveElements :: "(string \<times> interactive) list"
  jt_components :: "(string \<times> componentInfo) list"
  jt_useObjectState :: bool

definition shouldSkipNode :: "transformer \<Rightarrow> node \<Rightarrow> error + bool" where
  "shouldSkipNode t n =
     (case type_lower (node_type (attrs n)) of
        Inl e \<Rightarrow> Inl e
      | Inr nodeType \<Rightarrow>
          if nodeType = Some ''group''
          then (let a = attrs n;
                    hasStyle = (fills a \<noteq> [] \<or> strokes a \<noteq> []
                                \<or> (case cornerRadius a of Some r \<Rightarrow> r > 0 | None \<Rightarrow> False)
                                \<or> (case node_opacity a of Some v \<Rightarrow> v < 1 | None \<Rightarrow> False));
                    hasInteraction = map_has (jt_interactiveElements t) (node_id a);
                    childCount = length (children n)
                in Inr (\<not> hasStyle \<and> \<not> hasInteraction \<and> childCount = 1))
          else Inr False)"

text \<open>
  The part of \<open>transform\<close> after the component check (lines 51 to 121): the node's own tag,
  with the rendering of its children. \<open>rendered\<close> is the result of transforming the
  children at the next depth; a text node returns before the source looks at it.
\<close>

definition indent_of :: "nat \<Rightarrow> string" where
  "indent_of depth = concat (replicate depth ''  '')"

definition render_plain ::
  "transformer \<Rightarrow> node \<Rightarrow> nat \<Rightarrow> string \<Rightarrow> (error + string list) \<Rightarrow> error + string" where
  "render_plain t n depth nodeType rendered =
     (let a = attrs n; cs = children n;
          indent = indent_of depth;
          interactiveElement = map_of (jt_interactiveElements t) (node_id a);
          tagName0 = mapFigmaTypeToHTML nodeType;
          tagName = (case interactiveElement of
                       None \<Rightarrow> tagName0
                     | Some el \<Rightarrow>
                         (case ie_type el of Button \<Rightarrow> ''button'' | Input \<Rightarrow> ''input''
                          | Accordion \<Rightarrow> tagName0 | Toggle \<Rightarrow> tagName0));
          props = (case interactiveElement of
                     None \<Rightarrow> []
                   | Some el \<Rightarrow>
                       (case ie_type el of
                          Input \<Rightarrow>
                            (let safeInputId = sanitizeVariableName (ie_id el);
                                 inputValueRef = (if jt_useObjectState t then ''state.'' @ safeInputId
                                                  else safeInputId)
                             in [''type='' @ dq @ ''text'' @ dq, ''value={'' @ inputValueRef @ ''}''])
                        | _ \<Rightarrow> []));
          handlers = (case interactiveElement of
                        None \<Rightarrow> []
                      | Some el \<Rightarrow>
                          (case ie_type el of
                             Button \<Rightarrow> [''onClick={handle'' @ toPascalCase (ie_id el) @ ''}'']
                           | Input \<Rightarrow> [''onChange={handle'' @ toPascalCase (ie_id el) @ ''Change}'']
                           | Accordion \<Rightarrow> [''onClick={handle'' @ toPascalCase (ie_id el) @ ''Toggle}'']
                           | Toggle \<Rightarrow> [''onClick={handle'' @ toPascalCase (ie_id el) @ ''Toggle}'']));
          className = getClassName n False;
          allProps = join '' '' (filter (\<lambda>s. s \<noteq> []) (className # props @ handlers))
      in if nodeType = ''text'' \<and> characters a \<noteq> []
         then Inr (indent @ ''<'' @ tagName @ (if allProps \<noteq> [] then '' '' @ allProps else [])
                   @ ''>'' @ escapeHTML (characters a) @ ''</'' @ tagName @ ''>'')
         else (case rendered of
                 Inl e \<Rightarrow> Inl e
               | Inr rs \<Rightarrow>
                   let childrenText = (if cs \<noteq> [] then nl @ join nl rs @ nl @ indent else []) in
                   if isSelfClosing tagName
                   then (if trim childrenText \<noteq> []
                         then Inr (indent @ ''<div'' @ className @ ''>'' @ nl @ indent @ ''  <'' @ tagName
                                   @ (if props \<noteq> [] then '' '' @ join '' '' props else [])
                                   @ (if handlers \<noteq> [] then '' '' @ join '' '' handlers else [])
                                   @ '' />'' @ childrenText @ nl @ indent @ ''</div>'')
                         else Inr (indent @ ''<'' @ tagName
                                   @ (if allProps \<noteq> [] then '' '' @ allProps else []) @ '' />''))
                   else if \<not> hasMeaningfulStyle n \<and> trim childrenText = [] \<and> interactiveElement = None
                   then Inr []
                   else (let cleanProps = trim allProps in
                         if trim childrenText \<noteq> [] \<and> length cs = 1 \<and> \<not> hasMeaningfulStyle n
                            \<and> node_type (attrs (hd cs)) = Str ''TEXT'' \<and> characters (attrs (hd cs)) \<noteq> []
                         then Inr (indent @ escapeHTML (characters (attrs (hd cs))))
                         else Inr (indent @ ''<'' @ tagName
                                   @ (if cleanProps \<noteq> [] then '' '' @ cleanProps else [])
                                   @ ''>'' @ childrenText @ ''</'' @ tagName @ ''>''))))"

text \<open>The self-closing reference tag of line 47.\<close>

definition component_tag :: "nat \<Rightarrow> string \<Rightarrow> node \<Rightarrow> string" where
  "component_tag depth componentName n =
     indent_of depth @ ''<'' @ componentName @ getComponentProps n @ '' />''"

text \<open>
  Lines 34 to 121: the component check, then the node's own rendering.
\<close>

text \<open>\<open>node.type?.toLowerCase() || 'div'\<close>, once the lowering has not thrown.\<close>

definition type_or_div :: "string option \<Rightarrow> string" where
  "type_or_div lowered = (case lowered of Some s \<Rightarrow> if s = [] then ''div'' else s | None \<Rightarrow> ''div'')"

definition render_node ::
  "transformer \<Rightarrow> node \<Rightarrow> nat \<Rightarrow> string \<Rightarrow> (error + string list) \<Rightarrow> error + string" where
  "render_node t n depth currentComponentName rendered =
     (case type_lower (node_type (attrs n)) of
        Inl e \<Rightarrow> Inl e
      | Inr lowered \<Rightarrow>
          let nodeType = type_or_div lowered in
          case map_of (jt_components t) (node_id (attrs n)) of
            Some componentInfo \<Rightarrow>
              if ci_name componentInfo = currentComponentName
              then render_plain t n depth nodeType rendered
              else Inr (component_tag depth (ci_name componentInfo) n)
          | None \<Rightarrow> render_plain t n depth nodeType rendered)"

fun transform :: "transformer \<Rightarrow> node \<Rightarrow> nat \<Rightarrow> string \<Rightarrow> error + string"
  and transform_children :: "transformer \<Rightarrow> node list \<Rightarrow> nat \<Rightarrow> string \<Rightarrow> error + string list"
where
  "transform t (Node a cs) depth currentComponentName =
     (case shouldSkipNode t (Node a cs) of
        Inl e \<Rightarrow> Inl e
      | Inr skip \<Rightarrow>
          if skip \<and> length cs = 1
          then (case cs of [c] \<Rightarrow> transform t c depth currentComponentName | _ \<Rightarrow> Inr [])
          else render_node t (Node a cs) depth currentComponentName
                 (transform_children t cs (depth + 1) currentComponentName))"
| "transform_children t [] depth currentComponentName = Inr []"
| "transform_children t (c # cs) depth currentComponentName =
     (case transform t c depth currentComponentName of
        Inl e \<Rightarrow> Inl e
      | Inr r \<Rightarrow>
          (case transform_children t cs depth currentComponentName of
             Inl e \<Rightarrow> Inl e
           | Inr rs \<Rightarrow> Inr (r # rs)))"

text \<open>
  \<open>format\<close>: of two blank lines in a row the first is dropped.
\<close>

fun split_lines :: "string \<Rightarrow> string list" where
  "split_lines [] = [[]]"
| "split_lines (c # cs) =
     (if c = CHR 0x0A then [] # split_lines cs
      else (case split_lines cs of l # ls \<Rightarrow> (c # l) # ls | [] \<Rightarrow> [[c]]))"

fun drop_doubled_blank :: "string list \<Rightarrow> string list" where
  "drop_doubled_blank (l # m # ls) =
     (if trim l = [] \<and> trim m = [] then drop_doubled_blank (m # ls)
      else l # drop_doubled_blank (m # ls))"
| "drop_doubled_blank ls = ls"

definition format_jsx :: "string \<Rightarrow> string" where
  "format_jsx jsx = (if jsx = [] then [] else join nl (drop_doubled_blank (split_lines jsx)))"

section \<open>styleUtils\<close>

definition getSpacingVar :: "int \<Rightarrow> string" where
  "getSpacingVar val =
     (if val = 4 then ''var(--spacing-xs)''
      else if val = 8 then ''var(--spacing-sm)''
      else if val = 16 then ''var(--spacing-md)''
      else if val = 24 then ''var(--spacing-lg)''
      else if val = 32 then ''var(--spacing-xl)''
      else show_int val @ ''px'')"

definition getRadiusVar :: "int \<Rightarrow> string" where
  "getRadiusVar val =
     (if val = 4 then ''var(--border-radius-sm)''
      else if val = 8 then ''var(--border-radius-md)''
      else if val = 12 then ''var(--border-radius-lg)''
      else show_int val @ ''px'')"

definition getBaseResetStyles :: string where
  "getBaseResetStyles =
      ''/* CSS'' @ [CHR 0xE5, CHR 0x8F, CHR 0x98, CHR 0xE9, CHR 0x87, CHR 0x8F, CHR 0xE5, CHR 0xAE, CHR 0x9A, CHR 0xE4, CHR 0xB9, CHR 0x89] @ '' */'' @ nl @
      '':root {'' @ nl @
      ''  --spacing-xs: 4px;'' @ nl @
      ''  --spacing-sm: 8px;'' @ nl @
      ''  --spacing-md: 16px;'' @ nl @
      ''  --spacing-lg: 24px;'' @ nl @
      ''  --spacing-xl: 32px;'' @ nl @
      ''  --border-radius-sm: 4px;'' @ nl @
      ''  --border-radius-md: 8px;'' @ nl @
      ''  --border-radius-lg: 12px;'' @ nl @
      ''  --transition-base: 0.2s ease;'' @ nl @
      ''}'' @ nl @
      nl @
      ''/* '' @ [CHR 0xE5, CHR 0x9F, CHR 0xBA, CHR 0xE7, CHR 0xA1, CHR 0x80, CHR 0xE9, CHR 0x87, CHR 0x8D, CHR 0xE7, CHR 0xBD, CHR 0xAE, CHR 0xE6, CHR 0xA0, CHR 0xB7, CHR 0xE5, CHR 0xBC, CHR 0x8F] @ '' */'' @ nl @
      ''* {'' @ nl @
      ''  box-sizing: border-box;'' @ nl @
      ''  margin: 0;'' @ nl @
      ''  padding: 0;'' @ nl @
      ''}'' @ nl @
      nl @
      ''*,'' @ nl @
      ''*::before,'' @ nl @
      ''*::after {'' @ nl @
      ''  box-sizing: inherit;'' @ nl @
      ''}''"

section \<open>CSSTransformer\<close>

text \<open>The first paint of a list when it is a solid paint that is not hidden.\<close>

definition first_solid_visible :: "paint list \<Rightarrow> paint option" where
  "first_solid_visible ps =
     (case ps of
        p # _ \<Rightarrow> if paint_type p = ''SOLID'' \<and> paint_visible p \<noteq> Some False then Some p else None
      | [] \<Rightarrow> None)"

text \<open>\<open>node.paddingTop || node.layoutPaddingTop || 0\<close>\<close>

definition pad_or :: "int \<Rightarrow> int \<Rightarrow> int" where
  "pad_or a b = (if a \<noteq> 0 then a else b)"

definition getStyleKey :: "node \<Rightarrow> string option" where
  "getStyleKey n =
     (let a = attrs n; l = node_layout a;
          p_bbox = (case absoluteBoundingBox a of
                      Some b \<Rightarrow>
                        (if bbox_width b \<noteq> 0 then [''w:'' @ show_int (bbox_width b)] else [])
                        @ (if bbox_height b \<noteq> 0 then [''h:'' @ show_int (bbox_height b)] else [])
                    | None \<Rightarrow> []);
          p_bg = (case first_solid_visible (fills a) of
                    Some fill \<Rightarrow> [''bg:'' @ paint_css fill] | None \<Rightarrow> []);
          p_text =
            (if node_type a = Str ''TEXT''
             then (case node_style a of
                     Some s \<Rightarrow>
                       (if fontFamily s \<noteq> [] then [''font:'' @ fontFamily s] else [])
                       @ (if fontSize s \<noteq> 0 then [''size:'' @ show_int (fontSize s)] else [])
                       @ (if fontWeight s \<noteq> 0 then [''weight:'' @ show_int (fontWeight s)] else [])
                       @ (case letterSpacing s of
                            Some v \<Rightarrow> if v \<noteq> 0 then [''spacing:'' @ show_int v] else []
                          | None \<Rightarrow> [])
                       @ (if lineHeightPx s \<noteq> 0 then [''line:'' @ show_int (lineHeightPx s)] else [])
                   | None \<Rightarrow> [])
                  @ (case first_solid_visible (fills a) of
                       Some fill \<Rightarrow> [''color:'' @ paint_css fill] | None \<Rightarrow> [])
             else []);
          p_radius = (case cornerRadius a of
                        Some r \<Rightarrow> if r \<noteq> 0 then [''radius:'' @ show_int r] else []
                      | None \<Rightarrow> []);
          p_layout = (if layoutMode l \<noteq> [] then [''layout:'' @ layoutMode l] else []);
          p_border = (case first_solid_visible (strokes a) of
                        Some stroke \<Rightarrow>
                          [''border:'' @ paint_css stroke @ ''-''
                           @ show_int (if strokeWeight a \<noteq> 0 then strokeWeight a else 1)]
                      | None \<Rightarrow> []);
          pt = pad_or (paddingTop l) (layoutPaddingTop l);
          pr = pad_or (paddingRight l) (layoutPaddingRight l);
          pb = pad_or (paddingBottom l) (layoutPaddingBottom l);
          pl = pad_or (paddingLeft l) (layoutPaddingLeft l);
          p_pad = (if pt \<noteq> 0 \<or> pr \<noteq> 0 \<or> pb \<noteq> 0 \<or> pl \<noteq> 0
                   then [''pad:'' @ show_int pt @ ''-'' @ show_int pr @ ''-'' @ show_int pb @ ''-'' @ show_int pl]
                   else []);
          parts = p_bbox @ p_bg @ p_text @ p_radius @ p_layout @ p_border @ p_pad
      in if parts \<noteq> [] then Some (join ''|'' parts) else None)"

text \<open>
  \<open>nodeToCSS\<close>, rule by rule in the order of the source. The line height computed from
  \<open>lineHeightPercentFontSize\<close> is a quotient, not an integer: the model takes that field as
  absent.
\<close>

definition css_size_rules :: "node \<Rightarrow> string list" where
  "css_size_rules n =
     (let a = attrs n; z = node_sizing a in
      case absoluteBoundingBox a of
        None \<Rightarrow> []
      | Some b \<Rightarrow>
          let needsFixedSize = (constraints_horizontal z = ''FIXED'' \<or> constraints_vertical z = ''FIXED''
                                \<or> minWidth z \<noteq> 0 \<or> minHeight z \<noteq> 0);
              isText = (node_type a = Str ''TEXT'')
          in (if bbox_width b \<noteq> 0 \<and> (needsFixedSize \<or> isText)
              then [''  width: '' @ show_int (bbox_width b) @ ''px;'']
              else if bbox_width b \<noteq> 0 \<and> constraints_horizontal z = ''STRETCH''
              then [''  width: 100%;''] else [])
             @ (if bbox_height b \<noteq> 0 \<and> (needsFixedSize \<or> isText)
                then [''  height: '' @ show_int (bbox_height b) @ ''px;'']
                else if bbox_height b \<noteq> 0 \<and> constraints_vertical z = ''STRETCH''
                then [''  height: 100%;''] else []))"

definition css_paint_rules :: "node \<Rightarrow> string list" where
  "css_paint_rules n =
     (let a = attrs n; l = node_layout a in
      (if node_type a \<noteq> Str ''TEXT''
       then (case first_solid_visible (fills a) of
               Some fill \<Rightarrow>
                 if paint_css fill \<noteq> ''rgba(0, 0, 0, 0)'' \<and> paint_css fill \<noteq> ''transparent''
                 then [''  background-color: '' @ paint_css fill @ '';''] else []
             | None \<Rightarrow> [])
       else [])
      @ (case strokes a of
           stroke # _ \<Rightarrow>
             if paint_type stroke = ''SOLID''
             then [''  border: '' @ show_int (if strokeWeight a \<noteq> 0 then strokeWeight a else 1)
                   @ ''px solid '' @ paint_css stroke @ '';'']
                  @ (if strokeAlign a = ''CENTER'' then [''  box-sizing: border-box;''] else [])
             else []
         | [] \<Rightarrow> [])
      @ (case cornerRadius a of
           Some r \<Rightarrow> if r > 0 then [''  border-radius: '' @ getRadiusVar r @ '';''] else []
         | None \<Rightarrow> [])
      @ (let pt = pad_or (paddingTop l) (layoutPaddingTop l);
             pr = pad_or (paddingRight l) (layoutPaddingRight l);
             pb = pad_or (paddingBottom l) (layoutPaddingBottom l);
             pl = pad_or (paddingLeft l) (layoutPaddingLeft l)
         in if pt \<noteq> 0 \<or> pr \<noteq> 0 \<or> pb \<noteq> 0 \<or> pl \<noteq> 0
            then (if pt = pr \<and> pr = pb \<and> pb = pl
                  then [''  padding: '' @ getSpacingVar pt @ '';'']
                  else [''  padding: '' @ getSpacingVar pt @ '' '' @ getSpacingVar pr @ '' ''
                        @ getSpacingVar pb @ '' '' @ getSpacingVar pl @ '';''])
            else []))"

definition css_font_rules :: "node \<Rightarrow> string list" where
  "css_font_rules n =
     (let a = attrs n in
      case node_style a of
        None \<Rightarrow> []
      | Some s \<Rightarrow>
          (if fontFamily s \<noteq> []
           then [''  font-family: ''
                 @ (if str_includes (fontFamily s) '' '' then dq @ fontFamily s @ dq else fontFamily s)
                 @ '', sans-serif;'']
           else [])
          @ (if fontSize s \<noteq> 0 then [''  font-size: '' @ show_int (fontSize s) @ ''px;''] else [])
          @ (if fontWeight s \<noteq> 0 then [''  font-weight: '' @ show_int (fontWeight s) @ '';''] else [])
          @ (case letterSpacing s of
               Some v \<Rightarrow> [''  letter-spacing: '' @ show_int v @ ''px;''] | None \<Rightarrow> [])
          @ (if lineHeightPx s \<noteq> 0 then [''  line-height: '' @ show_int (lineHeightPx s) @ ''px;''] else [])
          @ (if node_type a = Str ''TEXT''
             then (case first_solid_visible (fills a) of
                     Some fill \<Rightarrow>
                       if paint_css fill \<noteq> ''rgba(0, 0, 0, 0)'' \<and> paint_css fill \<noteq> ''transparent''
                       then [''  color: '' @ paint_css fill @ '';''] else []
                   | None \<Rightarrow> [])
             else [])
          @ (if textAlignHorizontal a = ''LEFT'' then [''  text-align: left;'']
             else if textAlignHorizontal a = ''CENTER'' then [''  text-align: center;'']
             else if textAlignHorizontal a = ''RIGHT'' then [''  text-align: right;'']
             else if textAlignHorizontal a = ''JUSTIFIED'' then [''  text-align: justify;'']
             else [])
          @ (if textDecoration a = ''UNDERLINE'' then [''  text-decoration: underline;'']
             else if textDecoration a = ''STRIKETHROUGH'' then [''  text-decoration: line-through;'']
             else []))"

definition css_layout_rules :: "node \<Rightarrow> string list" where
  "css_layout_rules n =
     (let a = attrs n; l = node_layout a in
      if layoutMode l = ''HORIZONTAL'' \<or> layoutMode l = ''VERTICAL''
      then [''  display: flex;'',
            ''  flex-direction: '' @ (if layoutMode l = ''HORIZONTAL'' then ''row'' else ''column'') @ '';'']
           @ (if primaryAxisAlignItems l = ''CENTER'' then [''  justify-content: center;'']
              else if primaryAxisAlignItems l = ''MAX'' then [''  justify-content: flex-end;'']
              else if primaryAxisAlignItems l = ''SPACE_BETWEEN'' then [''  justify-content: space-between;'']
              else if primaryAxisAlignItems l = ''SPACE_AROUND'' then [''  justify-content: space-around;'']
              else [])
           @ (if counterAxisAlignItems l = ''CENTER'' then [''  align-items: center;'']
              else if counterAxisAlignItems l = ''MAX'' then [''  align-items: flex-end;'']
              else if counterAxisAlignItems l = ''STRETCH'' then [''  align-items: stretch;'']
              else if counterAxisAlignItems l = ''BASELINE'' then [''  align-items: baseline;'']
              else [])
           @ (if itemSpacing l > 0
              then [''  gap: ''
                    @ (if itemSpacing l = 8 then ''var(--spacing-sm)''
                       else if itemSpacing l = 16 then ''var(--spacing-md)''
                       else if itemSpacing l = 24 then ''var(--spacing-lg)''
                       else show_int (itemSpacing l) @ ''px'')
                    @ '';'']
              else [])
           @ (if layoutWrap l = ''WRAP'' then [''  flex-wrap: wrap;''] else [])
      else if length (children n) > 1
      then (if detectHorizontalLayout n then [''  display: flex;'', ''  flex-direction: row;'']
            else if length (children n) > 2 then [''  display: flex;'', ''  flex-direction: column;'']
            else [])
      else [])"

definition css_constraint_rules :: "node \<Rightarrow> string list" where
  "css_constraint_rules n =
     (let a = attrs n; z = node_sizing a;
          w = (case absoluteBoundingBox a of Some b \<Rightarrow> bbox_width b \<noteq> 0 | None \<Rightarrow> False);
          h = (case absoluteBoundingBox a of Some b \<Rightarrow> bbox_height b \<noteq> 0 | None \<Rightarrow> False)
      in (if node_position z = ''ABSOLUTE'' then [''  position: absolute;'']
          else if node_position z = ''RELATIVE'' then [''  position: relative;'']
          else [])
         @ (if constraints_horizontal z = ''MIN'' then [''  align-self: flex-start;'']
            else if constraints_horizontal z = ''CENTER'' then [''  align-self: center;'']
            else if constraints_horizontal z = ''MAX'' then [''  align-self: flex-end;'']
            else if constraints_horizontal z = ''STRETCH''
            then [''  align-self: stretch;''] @ (if w then [''  width: 100%;''] else [])
            else if constraints_horizontal z = ''SCALE'' then (if w then [''  width: 100%;''] else [])
            else [])
         @ (if constraints_vertical z = ''MIN'' then [''  align-self: flex-start;'']
            else if constraints_vertical z = ''CENTER'' then [''  align-self: center;'']
            else if constraints_vertical z = ''MAX'' then [''  align-self: flex-end;'']
            else if constraints_vertical z = ''STRETCH''
            then [''  align-self: stretch;''] @ (if h then [''  height: 100%;''] else [])
            else if constraints_vertical z = ''SCALE'' then (if h then [''  height: 100%;''] else [])
            else []))"

definition css_misc_rules :: "node \<Rightarrow> string list" where
  "css_misc_rules n =
     (let a = attrs n; z = node_sizing a in
      (case clipsContent z of
         Some clip \<Rightarrow> [''  overflow: '' @ (if clip then ''hidden'' else ''visible'') @ '';'']
       | None \<Rightarrow> [])
      @ (case node_opacity a of
           Some v \<Rightarrow> if v < 1 then [''  opacity: '' @ show_int v @ '';''] else []
         | None \<Rightarrow> [])
      @ (if node_visible a = Some False then [''  display: none;''] else [])
      @ (if minWidth z \<noteq> 0 then [''  min-width: '' @ show_int (minWidth z) @ ''px;''] else [])
      @ (if maxWidth z \<noteq> 0 then [''  max-width: '' @ show_int (maxWidth z) @ ''px;''] else [])
      @ (if minHeight z \<noteq> 0 then [''  min-height: '' @ show_int (minHeight z) @ ''px;''] else [])
      @ (if maxHeight z \<noteq> 0 then [''  max-height: '' @ show_int (maxHeight z) @ ''px;''] else [])
      @ (if node_type a = Str ''TEXT''
         then [''  white-space: pre-wrap;'', ''  word-wrap: break-word;''] else []))"

definition nodeToCSS :: "node \<Rightarrow> string \<Rightarrow> string" where
  "nodeToCSS n className =
     (let a = attrs n; l = node_layout a;
          needsBoxSizing = (strokes a \<noteq> [] \<or> paddingTop l \<noteq> 0 \<or> paddingRight l \<noteq> 0
                            \<or> paddingBottom l \<noteq> 0 \<or> paddingLeft l \<noteq> 0);
          rules = (if needsBoxSizing then [''  box-sizing: border-box;''] else [])
                  @ css_size_rules n @ css_paint_rules n @ css_font_rules n
                  @ css_layout_rules n @ css_constraint_rules n @ css_misc_rules n
      in if rules = [] then [] else className @ '' {'' @ nl @ join nl rules @ nl @ ''}'')"

text \<open>
  \<open>extractCSSRulesFromStyle\<close>: the text between the first \<open>{\<close> and the last \<open>}\<close> after it
  (\<open>/\{([\s\S]*)\}/\<close>), split into its lines, each trimmed, the empty ones dropped.
\<close>

definition extractCSSRulesFromStyle :: "string \<Rightarrow> string list" where
  "extractCSSRulesFromStyle styleString =
     (case dropWhile (\<lambda>c. c \<noteq> CHR ''{'') styleString of
        [] \<Rightarrow> []
      | _ # afterOpen \<Rightarrow>
          (case dropWhile (\<lambda>c. c \<noteq> CHR ''}'') (rev afterOpen) of
             [] \<Rightarrow> []
           | _ # beforeClose \<Rightarrow>
               if beforeClose = [] then []
               else filter (\<lambda>line. line \<noteq> []) (map trim (split_lines (rev beforeClose)))))"

record styleGroup =
  sg_classes :: "string list"
  sg_style :: string

text \<open>
  What \<open>extractStyles\<close> writes to: the array of single styles, the set of processed class
  names, the map from style key to the first class that had it, and the map from style
  key to its group.
\<close>

record cssState =
  cs_styles :: "string list"
  cs_processedClasses :: "string list"
  cs_styleMap :: "(string \<times> string) list"
  cs_styleGroups :: "(string \<times> styleGroup) list"

definition extract_node :: "node \<Rightarrow> cssState \<Rightarrow> cssState" where
  "extract_node n st =
     (let className = getClassName n True in
      if className \<noteq> [] \<and> \<not> List.member (cs_processedClasses st) className
      then (let st1 = st\<lparr>cs_processedClasses := className # cs_processedClasses st\<rparr> in
            if node_type (attrs n) = Str ''TEXT'' \<or> absoluteBoundingBox (attrs n) \<noteq> None
            then (let style = nodeToCSS n className in
                  if style \<noteq> [] \<and> length (trim style) > length className + 5
                  then (case getStyleKey n of
                          None \<Rightarrow> st1\<lparr>cs_styles := cs_styles st1 @ [style]\<rparr>
                        | Some styleKey \<Rightarrow>
                            (case map_of (cs_styleMap st1) styleKey of
                               Some existingClass \<Rightarrow>
                                 (let groups1 =
                                        (if \<not> map_has (cs_styleGroups st1) styleKey
                                         then map_set styleKey \<lparr>sg_classes = [existingClass], sg_style = style\<rparr>
                                                (cs_styleGroups st1)
                                         else cs_styleGroups st1)
                                  in case map_of groups1 styleKey of
                                       Some grp \<Rightarrow>
                                         if \<not> List.member (sg_classes grp) className
                                         then st1\<lparr>cs_styleGroups :=
                                                   map_set styleKey (grp\<lparr>sg_classes := sg_classes grp @ [className]\<rparr>) groups1\<rparr>
                                         else st1\<lparr>cs_styleGroups := groups1\<rparr>
                                     | None \<Rightarrow> st1\<lparr>cs_styleGroups := groups1\<rparr>)
                             | None \<Rightarrow>
                                 st1\<lparr>cs_styleMap := map_set styleKey className (cs_styleMap st1),
                                     cs_styleGroups := map_set styleKey \<lparr>sg_classes = [className], sg_style = style\<rparr>
                                                         (cs_styleGroups st1)\<rparr>))
                  else st1)
            else st1)
      else st)"

fun extractStyles :: "node \<Rightarrow> cssState \<Rightarrow> cssState" where
  "extractStyles (Node a cs) st = fold extractStyles cs (extract_node (Node a cs) st)"

text \<open>The block one group contributes to the style sheet, if any.\<close>

definition group_block :: "styleGroup \<Rightarrow> string list" where
  "group_block grp =
     (if length (sg_classes grp) > 1
      then (let selector = join '', '' (sg_classes grp);
                cssRules = extractCSSRulesFromStyle (sg_style grp)
            in if cssRules \<noteq> [] then [selector @ '' {'' @ nl @ join nl cssRules @ nl @ ''}''] else [])
      else if length (sg_classes grp) = 1 then [sg_style grp]
      else [])"

text \<open>The \<open>styles\<close> array of \<open>generate\<close> before it is joined.\<close>

definition css_blocks :: "node \<Rightarrow> string list" where
  "css_blocks n =
     (let st = extractStyles n \<lparr>cs_styles = [], cs_processedClasses = [], cs_styleMap = [], cs_styleGroups = []\<rparr>
      in [getBaseResetStyles] @ concat (map (\<lambda>(styleKey, grp). group_block grp) (cs_styleGroups st))
         @ cs_styles st)"

definition css_generate :: "node \<Rightarrow> string \<Rightarrow> string" where
  "css_generate n componentName = join (nl @ nl) (css_blocks n)"

section \<open>ReactTemplateGenerator\<close>

text \<open>A \<open>Set\<close> of strings is the list of its members in insertion order.\<close>

definition set_add :: "string \<Rightarrow> string list \<Rightarrow> string list" where
  "set_add x s = (if List.member s x then s else s @ [x])"

definition defaultValue_text :: "defaultValue \<Rightarrow> string" where
  "defaultValue_text d =
     (case d of DString s \<Rightarrow> sq @ s @ sq | DBool b \<Rightarrow> (if b then ''true'' else ''false''))"

definition component_imports ::
  "string \<Rightarrow> (string \<times> componentInfo) list \<Rightarrow> bool \<Rightarrow> string list \<Rightarrow> string list" where
  "component_imports componentName comps isSubComponent usedComponentIds =
     concat (map (\<lambda>(componentId, componentInfo).
        if \<not> List.member usedComponentIds componentId then []
        else if ci_name componentInfo = componentName then []
        else (let subComponentName = ci_name componentInfo;
                  importPath = (if isSubComponent then ''../'' @ subComponentName @ ''/'' @ subComponentName
                                else ''./components/'' @ subComponentName @ ''/'' @ subComponentName)
              in [''import { '' @ subComponentName @ '' } from '' @ sq @ importPath @ sq @ '';''])) comps)"

text \<open>
  The state declarations (lines 78 to 99): one aggregated state object when
  \<open>useObjectState\<close> holds, one state slot per variable otherwise.
\<close>

definition aggregated_state :: "string \<Rightarrow> stateVariable list \<Rightarrow> bool \<Rightarrow> string" where
  "aggregated_state componentName vars useTypeScript =
     (let stateType = (if useTypeScript then ''<'' @ componentName @ ''State>'' else []);
          stateInit = join ('','' @ nl)
                        (map (\<lambda>v. ''    '' @ sanitizeVariableName (sv_id v) @ '': ''
                                    @ defaultValue_text (sv_defaultValue v)) vars)
      in ''  const [state, setState] = useState'' @ stateType @ ''({'' @ nl @ stateInit @ nl @ ''  });'')"

definition state_slot :: "bool \<Rightarrow> stateVariable \<Rightarrow> string" where
  "state_slot useTypeScript v =
     (let safeId = sanitizeVariableName (sv_id v);
          typeAnnotation = (if useTypeScript then ''<'' @ sv_type v @ ''>'' else [])
      in ''  const ['' @ safeId @ '', set'' @ toPascalCase safeId @ ''] = useState'' @ typeAnnotation
         @ ''('' @ defaultValue_text (sv_defaultValue v) @ '');'')"

definition stateDeclarations :: "string \<Rightarrow> stateVariable list \<Rightarrow> bool \<Rightarrow> bool \<Rightarrow> string" where
  "stateDeclarations componentName vars useObjState useTypeScript =
     (if vars \<noteq> []
      then (if useObjState then aggregated_state componentName vars useTypeScript
            else join nl (map (state_slot useTypeScript) vars))
      else [])"

definition handler_text ::
  "string \<Rightarrow> (string \<times> interactive) list \<Rightarrow> stateVariable list \<Rightarrow> bool \<Rightarrow> bool \<Rightarrow> eventHandler \<Rightarrow> string" where
  "handler_text componentName ies vars useObjState needsOptimization h =
     (let stateVar = find (\<lambda>v. sv_id v = eh_id h) vars;
          interactiveElement = find (\<lambda>el. ie_id el = eh_id h) (map snd ies);
          handlerName = ''handle'' @ toPascalCase (eh_id h);
          useCallbackWrapper = (if needsOptimization then ''useCallback('' else []);
          useCallbackDeps = (if needsOptimization then '', [])'' else []);
          safeId = sanitizeVariableName (eh_id h);
          toggleSetter = (if useObjState
                          then ''setState((prev: '' @ componentName @ ''State) => ({ ...prev, '' @ safeId
                               @ '': !prev.'' @ safeId @ '' }))''
                          else ''set'' @ toPascalCase (eh_id h) @ ''(prev => !prev)'')
      in case map_option ie_type interactiveElement of
           Some Input \<Rightarrow>
             if stateVar = None then []
             else (let setterName = (if useObjState
                                     then ''setState((prev: '' @ componentName @ ''State) => ({ ...prev, ''
                                          @ safeId @ '': e.target.value }))''
                                     else ''set'' @ toPascalCase (eh_id h) @ ''(e.target.value)'')
                   in ''  const '' @ handlerName @ ''Change = '' @ useCallbackWrapper
                      @ ''(e: React.ChangeEvent<HTMLInputElement>) => {'' @ nl
                      @ ''    '' @ setterName @ '';'' @ nl @ ''  }'' @ useCallbackDeps @ '';'')
         | Some Accordion \<Rightarrow>
             if stateVar = None then []
             else ''  const '' @ handlerName @ ''Toggle = '' @ useCallbackWrapper @ ''() => {'' @ nl
                  @ ''    '' @ toggleSetter @ '';'' @ nl @ ''  }'' @ useCallbackDeps @ '';''
         | Some Toggle \<Rightarrow>
             if stateVar = None then []
             else ''  const '' @ handlerName @ ''Toggle = '' @ useCallbackWrapper @ ''() => {'' @ nl
                  @ ''    '' @ toggleSetter @ '';'' @ nl @ ''  }'' @ useCallbackDeps @ '';''
         | Some Button \<Rightarrow>
             ''  const '' @ handlerName @ '' = '' @ useCallbackWrapper @ ''() => {'' @ nl
             @ ''    // TODO: '' @ [CHR 0xE5, CHR 0xAE, CHR 0x9E, CHR 0xE7, CHR 0x8E, CHR 0xB0, CHR 0xE6, CHR 0x8C, CHR 0x89, CHR 0xE9, CHR 0x92, CHR 0xAE, CHR 0xE7, CHR 0x82, CHR 0xB9, CHR 0xE5, CHR 0x87, CHR 0xBB, CHR 0xE9, CHR 0x80, CHR 0xBB, CHR 0xE8, CHR 0xBE, CHR 0x91]
             @ nl @ ''  }'' @ useCallbackDeps @ '';''
         | None \<Rightarrow>
             if stateVar = None
             then ''  const '' @ handlerName @ '' = '' @ useCallbackWrapper @ ''() => {'' @ nl
                  @ ''    // TODO: '' @ [CHR 0xE5, CHR 0xAE, CHR 0x9E, CHR 0xE7, CHR 0x8E, CHR 0xB0, CHR 0xE4, CHR 0xBA, CHR 0x8B, CHR 0xE4, CHR 0xBB, CHR 0xB6, CHR 0xE5, CHR 0xA4, CHR 0x84, CHR 0xE7, CHR 0x90, CHR 0x86, CHR 0xE9, CHR 0x80, CHR 0xBB, CHR 0xE8, CHR 0xBE, CHR 0x91]
                  @ nl @ ''  }'' @ useCallbackDeps @ '';''
             else ''  const '' @ handlerName @ '' = '' @ useCallbackWrapper @ ''() => {'' @ nl
                  @ ''    '' @ toggleSetter @ '';'' @ nl @ ''  }'' @ useCallbackDeps @ '';'')"

definition template_imports ::
  "string \<Rightarrow> stateVariable list \<Rightarrow> eventHandler list \<Rightarrow> (string \<times> componentInfo) list
   \<Rightarrow> bool \<Rightarrow> bool \<Rightarrow> bool \<Rightarrow> string list \<Rightarrow> string" where
  "template_imports componentName vars hs comps useObjState useTypeScript isSubComponent usedComponentIds =
     (let componentImports = component_imports componentName comps isSubComponent usedComponentIds;
          componentImportsStr = (if componentImports \<noteq> [] then join nl componentImports @ nl else []);
          needsOptimization = (length vars > 3 \<or> length hs > 3);
          useMemoImport = (if needsOptimization then '', useMemo'' else []);
          useCallbackImport = (if needsOptimization then '', useCallback'' else []);
          importsBase = ''import React, { useState'' @ useMemoImport @ useCallbackImport
                        @ '' } from '' @ sq @ ''react'' @ sq @ '';'' @ nl
                        @ componentImportsStr @ ''import '' @ sq @ ''./'' @ componentName @ ''.css'' @ sq @ '';''
      in if useTypeScript
         then importsBase @ nl @ ''import type { '' @ componentName @ ''Props''
              @ (if useObjState then '', '' @ componentName @ ''State'' else [])
              @ '' } from '' @ sq @ ''./'' @ componentName @ ''.types'' @ sq @ '';''
         else importsBase)"

definition componentSignature :: "string \<Rightarrow> bool \<Rightarrow> string" where
  "componentSignature componentName useTypeScript =
     (if useTypeScript
      then ''const '' @ componentName @ '': React.FC<'' @ componentName @ ''Props> = () => {''
      else ''const '' @ componentName @ '' = () => {'')"

definition handlersSection ::
  "string \<Rightarrow> (string \<times> interactive) list \<Rightarrow> stateVariable list \<Rightarrow> eventHandler list \<Rightarrow> bool \<Rightarrow> string" where
  "handlersSection componentName ies vars hs useObjState =
     (let needsOptimization = (length vars > 3 \<or> length hs > 3);
          handlers = join (nl @ nl)
                       (filter (\<lambda>s. s \<noteq> [])
                          (map (handler_text componentName ies vars useObjState needsOptimization) hs))
      in if handlers \<noteq> [] then handlers @ nl else [])"

definition template_rest :: "string \<Rightarrow> string \<Rightarrow> bool \<Rightarrow> string" where
  "template_rest componentName jsx isSubComponent =
     (let exportStatement = (if isSubComponent
                             then ''export { '' @ componentName @ '' };'' @ nl @ ''export default '' @ componentName @ '';''
                             else ''export default '' @ componentName @ '';'');
          formattedJSX = format_jsx jsx
      in ''  return ('' @ nl @ formattedJSX @ nl @ ''  );'' @ nl @ ''};'' @ nl @ nl @ exportStatement @ nl)"

text \<open>
  \<open>ReactTemplateGenerator.generate\<close>: the imports, the signature, the state section, the
  handlers and the rest, as the final template literal puts them together.
\<close>

definition template_generate ::
  "string \<Rightarrow> string \<Rightarrow> (string \<times> interactive) list \<Rightarrow> stateVariable list \<Rightarrow> eventHandler list
   \<Rightarrow> (string \<times> componentInfo) list \<Rightarrow> bool \<Rightarrow> bool \<Rightarrow> bool \<Rightarrow> string list \<Rightarrow> string" where
  "template_generate componentName jsx ies vars hs comps useObjState useTypeScript isSubComponent usedComponentIds =
     (let declarations = stateDeclarations componentName vars useObjState useTypeScript;
          stateSection = (if declarations \<noteq> [] then declarations @ nl else [])
      in template_imports componentName vars hs comps useObjState useTypeScript isSubComponent usedComponentIds
         @ nl @ nl @ componentSignature componentName useTypeScript @ nl
         @ stateSection @ handlersSection componentName ies vars hs useObjState
         @ template_rest componentName jsx isSubComponent)"

section \<open>CodeGenerator\<close>

text \<open>The fields the constructor sets from the configuration.\<close>

record config =
  cfg_format :: string
  cfg_useTypeScript :: bool
  cfg_componentize :: bool
  cfg_componentName :: string

text \<open>
  The object \<open>generate\<close> returns: its keys in insertion order. An assignment to a key that
  is present keeps the key's place.
\<close>

type_synonym files = "(string \<times> string) list"

definition object_assign :: "files \<Rightarrow> files \<Rightarrow> files" where
  "object_assign result source = fold (\<lambda>(k, v) r. map_set k v r) source result"

definition resetState :: "gencontext \<Rightarrow> gencontext" where
  "resetState ctx =
     ctx\<lparr>interactiveElements := [], stateVariables := [], eventHandlers := [],
         components := [], componentCounter := 0, useObjectState := False\<rparr>"

definition saveState :: "gencontext \<Rightarrow> gencontext" where
  "saveState ctx =
     \<lparr>interactiveElements = interactiveElements ctx, stateVariables = stateVariables ctx,
      eventHandlers = eventHandlers ctx, components = components ctx,
      componentCounter = componentCounter ctx, useObjectState = useObjectState ctx\<rparr>"

definition restoreState :: "gencontext \<Rightarrow> gencontext \<Rightarrow> gencontext" where
  "restoreState ctx state =
     ctx\<lparr>interactiveElements := interactiveElements state, stateVariables := stateVariables state,
         eventHandlers := eventHandlers state, components := components state,
         componentCounter := componentCounter state, useObjectState := useObjectState state\<rparr>"

definition analyzeInteractiveElements :: "gencontext \<Rightarrow> node \<Rightarrow> gencontext" where
  "analyzeInteractiveElements ctx n =
     (case analyze n (interactiveElements ctx, stateVariables ctx, eventHandlers ctx) of
        (ie, sv, eh) \<Rightarrow>
          ctx\<lparr>interactiveElements := ie, stateVariables := sv, eventHandlers := eh,
              useObjectState := (length sv > 3)\<rparr>)"

text \<open>\<open>ComponentAnalyzer.identify\<close> on the context's components map and counter.\<close>

definition identify_in :: "gencontext \<Rightarrow> node \<Rightarrow> string option \<Rightarrow> gencontext \<times> error option" where
  "identify_in ctx n parentId =
     (case identify n 0 parentId (components ctx, componentCounter ctx) of
        ((comps, counter), err) \<Rightarrow> (ctx\<lparr>components := comps, componentCounter := counter\<rparr>, err))"

fun collectUsedComponents :: "gencontext \<Rightarrow> node \<Rightarrow> string list \<Rightarrow> string list" where
  "collectUsedComponents ctx (Node a cs) usedIds =
     fold (collectUsedComponents ctx) cs
       (if map_has (components ctx) (node_id a) then set_add (node_id a) usedIds else usedIds)"

definition generateTypesFile :: "gencontext \<Rightarrow> string \<Rightarrow> string" where
  "generateTypesFile ctx componentName =
     (let stateInterface =
            (if stateVariables ctx \<noteq> []
             then ''export interface '' @ componentName @ ''State {'' @ nl
                  @ join nl (map (\<lambda>v. ''  '' @ sanitizeVariableName (sv_id v) @ '': '' @ sv_type v @ '';'')
                               (stateVariables ctx))
                  @ nl @ ''}'' @ nl @ nl
             else []);
          handlerLines =
            join nl (map (\<lambda>h.
              if map_option ie_type (find (\<lambda>el. ie_id el = eh_id h) (map snd (interactiveElements ctx))) = Some Input
              then ''  handle'' @ toPascalCase (eh_id h) @ ''Change: (e: React.ChangeEvent<HTMLInputElement>) => void;''
              else ''  handle'' @ toPascalCase (eh_id h) @ '': () => void;'') (eventHandlers ctx))
      in ''/**'' @ nl
         @ '' * '' @ componentName @ '' '' @ [CHR 0xE7, CHR 0xBB, CHR 0x84, CHR 0xE4, CHR 0xBB, CHR 0xB6, CHR 0xE5, CHR 0xB1, CHR 0x9E, CHR 0xE6, CHR 0x80, CHR 0xA7] @ nl
         @ '' */'' @ nl
         @ ''export interface '' @ componentName @ ''Props {'' @ nl
         @ ''  className?: string;'' @ nl
         @ ''  // TODO: '' @ [CHR 0xE6, CHR 0xA0, CHR 0xB9, CHR 0xE6, CHR 0x8D, CHR 0xAE, CHR 0xE5, CHR 0xAE, CHR 0x9E, CHR 0xE9, CHR 0x99, CHR 0x85, CHR 0xE9, CHR 0x9C, CHR 0x80, CHR 0xE6, CHR 0xB1, CHR 0x82, CHR 0xE6, CHR 0xB7, CHR 0xBB, CHR 0xE5, CHR 0x8A, CHR 0xA0] @ ''props'' @ nl
         @ ''}'' @ nl @ nl
         @ stateInterface
         @ ''/**'' @ nl
         @ '' * '' @ componentName @ '' '' @ [CHR 0xE7, CHR 0xBB, CHR 0x84, CHR 0xE4, CHR 0xBB, CHR 0xB6, CHR 0xE4, CHR 0xBA, CHR 0x8B, CHR 0xE4, CHR 0xBB, CHR 0xB6, CHR 0xE5, CHR 0xA4, CHR 0x84, CHR 0xE7, CHR 0x90, CHR 0x86, CHR 0xE5, CHR 0x99, CHR 0xA8, CHR 0xE7, CHR 0xB1, CHR 0xBB, CHR 0xE5, CHR 0x9E, CHR 0x8B] @ nl
         @ '' */'' @ nl
         @ ''export interface '' @ componentName @ ''Handlers {'' @ nl
         @ handlerLines @ nl
         @ ''}'' @ nl)"

text \<open>The files of one unit: the component, its style sheet and, in typed mode, its types.\<close>

definition unit_files ::
  "config \<Rightarrow> gencontext \<Rightarrow> string \<Rightarrow> string \<Rightarrow> string \<Rightarrow> string \<Rightarrow> bool \<Rightarrow> string list \<Rightarrow> files" where
  "unit_files cfg ctx dir unitName jsx css isSubComponent usedComponentIds =
     (let extension = (if cfg_useTypeScript cfg then ''tsx'' else ''jsx'');
          r1 = map_set (dir @ unitName @ ''.'' @ extension)
                 (template_generate unitName jsx (interactiveElements ctx) (stateVariables ctx)
                    (eventHandlers ctx) (components ctx) (useObjectState ctx) (cfg_useTypeScript cfg)
                    isSubComponent usedComponentIds) [];
          r2 = map_set (dir @ unitName @ ''.css'') css r1
      in if cfg_useTypeScript cfg
         then map_set (dir @ unitName @ ''.types.ts'') (generateTypesFile ctx unitName) r2
         else r2)"

text \<open>
  \<open>generateSubComponent\<close>. The result is what the call returns or throws, the context it
  leaves, and the entries it leaves in the \<open>Map\<close> object that \<open>this.components\<close> referred to
  when the call began. \<open>resetState\<close> clears that object in place and the nested
  \<open>identify\<close> fills it; \<open>restoreState\<close> then points \<open>this.components\<close> to the copy that
  \<open>saveState\<close> made, so the object keeps the nested entries. The source has no
  \<open>try\<close>: a throw leaves the method before \<open>restoreState\<close>.
\<close>

definition generateSubComponent ::
  "config \<Rightarrow> gencontext \<Rightarrow> componentInfo \<Rightarrow> string
   \<Rightarrow> (error + files) \<times> gencontext \<times> (string \<times> componentInfo) list" where
  "generateSubComponent cfg ctx componentInfo subComponentName =
     (let originalState = saveState ctx;
          c1 = resetState ctx;
          c2 = analyzeInteractiveElements c1 (ci_node componentInfo);
          identified = (if cfg_componentize cfg
                        then identify_in c2 (ci_node componentInfo) (Some (node_id (attrs (ci_node componentInfo))))
                        else (c2, None))
      in case identified of
           (c3, Some e) \<Rightarrow> (Inl e, c3, components c3)
         | (c3, None) \<Rightarrow>
             let c4 = c3\<lparr>useObjectState := (length (stateVariables c3) > 3)\<rparr>;
                 jsxTransformer = \<lparr>jt_interactiveElements = interactiveElements c4,
                                   jt_components = components c4,
                                   jt_useObjectState = useObjectState c4\<rparr>
             in case transform jsxTransformer (ci_node componentInfo) 1 subComponentName of
                  Inl e \<Rightarrow> (Inl e, c4, components c4)
                | Inr subJsx \<Rightarrow>
                    let subCss = css_generate (ci_node componentInfo) subComponentName;
                        subUsedComponentIds = collectUsedComponents c4 (ci_node componentInfo) [];
                        result = unit_files cfg c4 (''components/'' @ subComponentName @ ''/'')
                                   subComponentName subJsx subCss True subUsedComponentIds
                    in (Inr result, restoreState c4 originalState, components c4))"

text \<open>
  The loop over \<open>this.components.entries()\<close> in \<open>generateReact\<close>. The iterator belongs to
  the \<open>Map\<close> object that \<open>this.components\<close> referred to when the loop began. \<open>entries\<close> are
  the entries the iterator has yet to visit; \<open>live\<close> says that \<open>this.components\<close> still refers
  to the iterated object. The first nested generation clears and refills that object, and
  a \<open>Map\<close> iterator visits the entries added behind its position: the loop goes on with
  the entries the nested generation left. From then on \<open>this.components\<close> is a copy, and
  later nested generations do not touch the iterated object.
\<close>

function emit_subcomponents ::
  "config \<Rightarrow> string \<Rightarrow> string list \<Rightarrow> bool \<Rightarrow> (string \<times> componentInfo) list \<Rightarrow> string list
   \<Rightarrow> files \<Rightarrow> gencontext \<Rightarrow> (error + files) \<times> gencontext" where
  "emit_subcomponents cfg rootNodeId usedComponentIds live [] generatedComponents result ctx = (Inr result, ctx)"
| "emit_subcomponents cfg rootNodeId usedComponentIds live ((componentId, componentInfo) # entries) generatedComponents result ctx =
     (if componentId = rootNodeId
      then emit_subcomponents cfg rootNodeId usedComponentIds live entries generatedComponents result ctx
      else if \<not> List.member usedComponentIds componentId
      then emit_subcomponents cfg rootNodeId usedComponentIds live entries generatedComponents result ctx
      else if List.member generatedComponents (ci_name componentInfo)
      then emit_subcomponents cfg rootNodeId usedComponentIds live entries generatedComponents result ctx
      else (case generateSubComponent cfg ctx componentInfo (ci_name componentInfo) of
              (Inl e, ctx1, left) \<Rightarrow> (Inl e, ctx1)
            | (Inr subResult, ctx1, left) \<Rightarrow>
                emit_subcomponents cfg rootNodeId usedComponentIds False (if live then left else entries)
                  (set_add (ci_name componentInfo) generatedComponents)
                  (object_assign result subResult) ctx1))"
  by pat_completeness auto
termination
  by (relation "measures [\<lambda>(cfg, rootNodeId, used, live, entries, rest). if live then 1 else 0,
                          \<lambda>(cfg, rootNodeId, used, live, entries, rest). length entries]") auto

text \<open>
  \<open>generateReact\<close>. \<open>preprocessNode\<close> works on the document in place, so the call also
  changes its argument: the third component of the result is the document after the call.
\<close>

text \<open>The name of the root unit: the configured name, or else the name of the root node.\<close>

definition root_component_name :: "config \<Rightarrow> node \<Rightarrow> string" where
  "root_component_name cfg processedData =
     (if cfg_componentName cfg \<noteq> [] then toPascalCase (cfg_componentName cfg)
      else toPascalCase (name_or (node_name (attrs processedData)) ''Component''))"

definition generateReact :: "config \<Rightarrow> gencontext \<Rightarrow> node \<Rightarrow> (error + files) \<times> gencontext \<times> node" where
  "generateReact cfg ctx figmaData =
     (let c0 = resetState ctx;
          processedData = preprocessNode figmaData None;
          componentName = root_component_name cfg processedData;
          c1 = analyzeInteractiveElements c0 processedData;
          identified = (if cfg_componentize cfg then identify_in c1 processedData None else (c1, None))
      in case identified of
           (c2, Some e) \<Rightarrow> (Inl e, c2, processedData)
         | (c2, None) \<Rightarrow>
             let jsxTransformer = \<lparr>jt_interactiveElements = interactiveElements c2,
                                   jt_components = components c2,
                                   jt_useObjectState = useObjectState c2\<rparr>
             in case transform jsxTransformer processedData 1 componentName of
                  Inl e \<Rightarrow> (Inl e, c2, processedData)
                | Inr jsx \<Rightarrow>
                    let css = css_generate processedData componentName;
                        usedComponentIds = (if cfg_componentize cfg
                                            then collectUsedComponents c2 processedData [] else []);
                        rootNodeId = node_id (attrs processedData);
                        result = (if cfg_componentize cfg
                                  then unit_files cfg c2 (''components/'' @ componentName @ ''/'')
                                         componentName jsx css True usedComponentIds
                                  else unit_files cfg c2 [] componentName jsx css False usedComponentIds)
                    in if cfg_componentize cfg \<and> components c2 \<noteq> []
                       then (case emit_subcomponents cfg rootNodeId usedComponentIds True (components c2)
                                    [componentName] result c2 of
                               (r, c3) \<Rightarrow> (r, c3, processedData))
                       else (Inr result, c2, processedData))"

definition generateHTML :: files where
  "generateHTML =
     [(''index.html'',
       ''<!DOCTYPE html>'' @ nl @ ''<html>'' @ nl @ ''<head>'' @ nl @ ''<title>Figma Design</title>'' @ nl
       @ ''</head>'' @ nl @ ''<body>'' @ nl @ ''</body>'' @ nl @ ''</html>'')]"

definition generateVue :: files where
  "generateVue =
     [(''Component.vue'',
       ''<template>'' @ nl @ ''</template>'' @ nl @ ''<script>'' @ nl @ ''export default {}'' @ nl
       @ ''</script>'' @ nl @ ''<style scoped>'' @ nl @ ''</style>'')]"

definition generate :: "config \<Rightarrow> gencontext \<Rightarrow> node \<Rightarrow> (error + files) \<times> gencontext \<times> node" where
  "generate cfg ctx figmaData =
     (let f = toLowerCase (cfg_format cfg) in
      if f = ''react'' then generateReact cfg ctx figmaData
      else if f = ''html'' then (Inr generateHTML, ctx, figmaData)
      else if f = ''vue'' then (Inr generateVue, ctx, figmaData)
      else generateReact cfg ctx figmaData)"

text \<open>The context of a new \<open>CodeGenerator\<close>.\<close>

definition new_context :: gencontext where
  "new_context = \<lparr>interactiveElements = [], stateVariables = [], eventHandlers = [],
     components = [], componentCounter = 0, useObjectState = False\<rparr>"

section \<open>Example documents\<close>

definition react_config :: config where
  "react_config = \<lparr>cfg_format = ''react'', cfg_useTypeScript = True, cfg_componentize = True,
     cfg_componentName = []\<rparr>"

text \<open>A page with a card and a footer; the card holds one text.\<close>

definition card_node :: node where
  "card_node =
     Node (blank\<lparr>node_id := ''1:1'', node_name := ''Card'', node_type := Str ''FRAME''\<rparr>)
       [Node (blank\<lparr>node_id := ''1:2'', node_name := ''Title'', node_type := Str ''TEXT'',
                 characters := ''Hi''\<rparr>) []]"

definition page_doc :: node where
  "page_doc =
     Node (blank\<lparr>node_id := ''0:1'', node_name := ''Page'', node_type := Str ''FRAME''\<rparr>)
       [card_node,
        Node (blank\<lparr>node_id := ''1:3'', node_name := ''Submit Footer'', node_type := Str ''FRAME''\<rparr>) []]"

text \<open>The same page from a malformed document: the type of the text inside the card is a number.\<close>

definition bad_card_node :: node where
  "bad_card_node =
     Node (blank\<lparr>node_id := ''1:1'', node_name := ''Card'', node_type := Str ''FRAME''\<rparr>)
       [Node (blank\<lparr>node_id := ''1:2'', node_name := ''Title'', node_type := Num 5,
                 characters := ''Hi''\<rparr>) []]"

definition bad_page_doc :: node where
  "bad_page_doc =
     Node (blank\<lparr>node_id := ''0:1'', node_name := ''Page'', node_type := Str ''FRAME''\<rparr>)
       [bad_card_node,
        Node (blank\<lparr>node_id := ''1:3'', node_name := ''Submit Footer'', node_type := Str ''FRAME''\<rparr>) []]"

text \<open>
  The context \<open>generateReact\<close> has built for a document when it reaches the loop over the
  components: the classification and the boundaries of the whole document.
\<close>

definition root_context :: "node \<Rightarrow> gencontext" where
  "root_context doc = fst (identify_in (analyzeInteractiveElements new_context doc) doc None)"

text \<open>A box with a hidden and a shown fill, and a child placed inside it.\<close>

definition box_doc :: node where
  "box_doc =
     Node (blank\<lparr>node_id := ''2:1'', node_name := ''Box'', node_type := Str ''FRAME'',
               fills := [\<lparr>paint_type = ''SOLID'', paint_visible = Some False, paint_css = ''rgba(255, 0, 0, 1)''\<rparr>,
                         \<lparr>paint_type = ''SOLID'', paint_visible = None, paint_css = ''rgba(0, 0, 255, 1)''\<rparr>],
               absoluteBoundingBox := Some \<lparr>bbox_x = 10, bbox_y = 20, bbox_width = 100, bbox_height = 50\<rparr>\<rparr>)
       [Node (blank\<lparr>node_id := ''2:2'', node_name := ''Label'', node_type := Str ''TEXT'', characters := ''Hi'',
                 absoluteBoundingBox := Some \<lparr>bbox_x = 15, bbox_y = 28, bbox_width = 30, bbox_height = 10\<rparr>\<rparr>) []]"

text \<open>
  A page whose card is a group around one text, and a page whose wrapper is a frame around
  one styled frame.
\<close>

definition group_card :: node where
  "group_card =
     Node (blank\<lparr>node_id := ''3:1'', node_name := ''Card'', node_type := Str ''GROUP''\<rparr>)
       [Node (blank\<lparr>node_id := ''3:2'', node_name := ''Title'', node_type := Str ''TEXT'',
                 characters := ''Hi''\<rparr>) []]"

definition group_page :: node where
  "group_page =
     Node (blank\<lparr>node_id := ''3:0'', node_name := ''Page'', node_type := Str ''FRAME''\<rparr>) [group_card]"




text \<open>The transformer \<open>generateReact\<close> builds from the context of a document.\<close>

definition transformer_of :: "gencontext \<Rightarrow> transformer" where
  "transformer_of ctx =
     \<lparr>jt_interactiveElements = interactiveElements ctx, jt_components = components ctx,
      jt_useObjectState = useObjectState ctx\<rparr>"





definition frame_c :: node where
  "frame_c =
     Node (blank\<lparr>node_id := ''7:1'', node_name := ''c'', node_type := Str ''FRAME'', cornerRadius := Some 5,
               absoluteBoundingBox := Some \<lparr>bbox_x = 0, bbox_y = 0, bbox_width = 10, bbox_height = 20\<rparr>\<rparr>) []"

definition frame_d :: node where
  "frame_d =
     Node (blank\<lparr>node_id := ''7:2'', node_name := ''d'', node_type := Str ''FRAME'', cornerRadius := Some 5,
               absoluteBoundingBox := Some \<lparr>bbox_x = 30, bbox_y = 0, bbox_width = 10, bbox_height = 20\<rparr>\<rparr>) []"

definition radius_pair_doc :: node where
  "radius_pair_doc =
     Node (blank\<lparr>node_id := ''7:0'', node_name := ''Page'', node_type := Str ''FRAME''\<rparr>) [frame_c, frame_d]"

text \<open>
  A page where the class of \<open>frame_c\<close> is taken by an earlier frame with another corner
  radius, and a page with two frames that have a size and nothing else.
\<close>

definition frame_c3 :: node where
  "frame_c3 =
     Node (blank\<lparr>node_id := ''8:1'', node_name := ''c'', node_type := Str ''FRAME'', cornerRadius := Some 3,
               absoluteBoundingBox := Some \<lparr>bbox_x = 0, bbox_y = 0, bbox_width = 10, bbox_height = 20\<rparr>\<rparr>) []"

definition reused_class_doc :: node where
  "reused_class_doc =
     Node (blank\<lparr>node_id := ''8:0'', node_name := ''Page'', node_type := Str ''FRAME''\<rparr>)
       [frame_c3, frame_c, frame_d]"

definition bare_e :: node where
  "bare_e =
     Node (blank\<lparr>node_id := ''9:1'', node_name := ''e'', node_type := Str ''FRAME'',
               absoluteBoundingBox := Some \<lparr>bbox_x = 0, bbox_y = 0, bbox_width = 10, bbox_height = 20\<rparr>\<rparr>) []"

definition bare_f :: node where
  "bare_f =
     Node (blank\<lparr>node_id := ''9:2'', node_name := ''f'', node_type := Str ''FRAME'',
               absoluteBoundingBox := Some \<lparr>bbox_x = 30, bbox_y = 0, bbox_width = 10, bbox_height = 20\<rparr>\<rparr>) []"

definition bare_pair_doc :: node where
  "bare_pair_doc =
     Node (blank\<lparr>node_id := ''9:0'', node_name := ''Page'', node_type := Str ''FRAME''\<rparr>) [bare_e, bare_f]"

text \<open>
  The page of \<open>frame_c\<close> and \<open>frame_d\<close> with a later frame that has the class of
  \<open>frame_c\<close> and another corner radius; and a frame with the class, size and corner radius
  of \<open>frame_d\<close> that clips its content, after and before \<open>frame_c\<close>.
\<close>

definition late_class_doc :: node where
  "late_class_doc =
     Node (blank\<lparr>node_id := ''8:5'', node_name := ''Page'', node_type := Str ''FRAME''\<rparr>)
       [frame_c, frame_d, frame_c3]"

definition clipped_d :: node where
  "clipped_d =
     Node (blank\<lparr>node_id := ''7:3'', node_name := ''d'', node_type := Str ''FRAME'', cornerRadius := Some 5,
               absoluteBoundingBox := Some \<lparr>bbox_x = 30, bbox_y = 0, bbox_width = 10, bbox_height = 20\<rparr>,
               node_sizing := no_sizing\<lparr>clipsContent := Some True\<rparr>\<rparr>) []"

definition clip_last_doc :: node where
  "clip_last_doc =
     Node (blank\<lparr>node_id := ''7:4'', node_name := ''Page'', node_type := Str ''FRAME''\<rparr>) [frame_c, clipped_d]"

definition clip_first_doc :: node where
  "clip_first_doc =
     Node (blank\<lparr>node_id := ''7:4'', node_name := ''Page'', node_type := Str ''FRAME''\<rparr>) [clipped_d, frame_c]"

text \<open>A text that is a boundary by its name.\<close>

definition text_card :: node where
  "text_card =
     Node (blank\<lparr>node_id := ''10:1'', node_name := ''Card Title'', node_type := Str ''TEXT'',
               characters := ''Hi''\<rparr>) []"







definition repeat_form_doc :: node where
  "repeat_form_doc =
     Node (blank\<lparr>node_id := ''5:0'', node_name := ''Signup'', node_type := Str ''FRAME''\<rparr>)
       [Node (blank\<lparr>node_id := ''5:1'', node_name := ''Name Input'', node_type := Str ''FRAME''\<rparr>) [],
        Node (blank\<lparr>node_id := ''5:2'', node_name := ''Mail Input'', node_type := Str ''RECTANGLE''\<rparr>) [],
        Node (blank\<lparr>node_id := ''5:3'', node_name := ''City Input'', node_type := Str ''FRAME''\<rparr>) [],
        Node (blank\<lparr>node_id := ''5:4'', node_name := ''City Input'', node_type := Str ''FRAME''\<rparr>) []]"

section \<open>Auxiliary notions for the proofs\<close>

text \<open>The box of the parent that \<open>preprocessNode\<close> reads, and the fields it leaves in a node.\<close>

definition parent_box :: "attrs option \<Rightarrow> bbox option" where
  "parent_box p = (case p of None \<Rightarrow> None | Some q \<Rightarrow> absoluteBoundingBox q)"

definition preprocess_attrs :: "attrs \<Rightarrow> bbox option \<Rightarrow> attrs" where
  "preprocess_attrs a pb =
     (case (absoluteBoundingBox a, pb) of
        (Some nb, Some b) \<Rightarrow>
           a\<lparr>relativeBoundingBox :=
                 Some \<lparr>bbox_x = bbox_x nb - bbox_x b, bbox_y = bbox_y nb - bbox_y b,
                       bbox_width = bbox_width nb, bbox_height = bbox_height nb\<rparr>,
             fills := filter is_visible (fills a), strokes := filter is_visible (strokes a)\<rparr>
      | _ \<Rightarrow> a\<lparr>fills := filter is_visible (fills a), strokes := filter is_visible (strokes a)\<rparr>)"



definition styled :: "node \<Rightarrow> bool" where
  "styled n =
     (let className = getClassName n True in
      className \<noteq> []
      \<and> (node_type (attrs n) = Str ''TEXT'' \<or> absoluteBoundingBox (attrs n) \<noteq> None)
      \<and> nodeToCSS n className \<noteq> []
      \<and> length (trim (nodeToCSS n className)) > length className + 5)"









section \<open>Properties\<close>

subsection \<open>The preprocessor\<close>

lemma preprocessNode_unfold:
  "preprocessNode (Node a cs) p =
     Node (preprocess_attrs a (parent_box p))
          (map (\<lambda>child. preprocessNode child (Some (preprocess_attrs a (parent_box p)))) cs)"
  by (simp add: parent_box_def preprocess_attrs_def Let_def split: option.splits)

lemma preprocess_attrs_sel:
  "absoluteBoundingBox (preprocess_attrs a pb) = absoluteBoundingBox a"
  "node_id (preprocess_attrs a pb) = node_id a"
  "node_name (preprocess_attrs a pb) = node_name a"
  "node_type (preprocess_attrs a pb) = node_type a"
  "fills (preprocess_attrs a pb) = filter is_visible (fills a)"
  "strokes (preprocess_attrs a pb) = filter is_visible (strokes a)"
  by (simp_all add: preprocess_attrs_def split: option.splits)

lemma preprocess_attrs_idem:
  "preprocess_attrs (preprocess_attrs a pb) pb = preprocess_attrs a pb"
  by (simp add: preprocess_attrs_def split: option.splits)

lemma parent_box_Some: "parent_box (Some a) = absoluteBoundingBox a"
  by (simp add: parent_box_def)

lemma preprocessNode_idem:
  "parent_box p' = parent_box p \<Longrightarrow> preprocessNode (preprocessNode n p) p' = preprocessNode n p"
proof (induction n arbitrary: p p')
  case (Node a cs)
  let ?a = "preprocess_attrs a (parent_box p)"
  have inner: "preprocessNode (preprocessNode c (Some ?a)) (Some ?a) = preprocessNode c (Some ?a)"
    if "c \<in> set cs" for c
    using Node.IH [OF that, of "Some ?a" "Some ?a"] by simp
  show ?case
    using Node.prems inner
    by (simp add: preprocessNode_unfold preprocess_attrs_idem preprocess_attrs_sel parent_box_Some
             del: preprocessNode.simps)
qed

text \<open>
  C2 (as amended). \<open>preprocessNode\<close> builds no new tree: it returns the node it was given,
  changed in place. After the call the fills and the strokes of the node are its paints
  whose \<open>visible\<close> flag is not \<open>false\<close>, in their order; a node that has a box and was given
  a parent that has a box carries the relative box (its own corner less the corner of the
  parent, with its own width and height), and the relative box of any other node is as it
  was; no other field of the node is changed, so its id, name, type and absolute bounding
  box are as before; its children are the processed children, one for one, each processed
  with the node as its parent. A second normalization of the same document changes nothing
  more.
\<close>

theorem preprocessNode_in_place:
  "fills (attrs (preprocessNode n p)) = filter is_visible (fills (attrs n))
   \<and> strokes (attrs (preprocessNode n p)) = filter is_visible (strokes (attrs n))
   \<and> children (preprocessNode n p)
       = map (\<lambda>child. preprocessNode child (Some (attrs (preprocessNode n p)))) (children n)
   \<and> node_id (attrs (preprocessNode n p)) = node_id (attrs n)
   \<and> node_name (attrs (preprocessNode n p)) = node_name (attrs n)
   \<and> node_type (attrs (preprocessNode n p)) = node_type (attrs n)
   \<and> absoluteBoundingBox (attrs (preprocessNode n p)) = absoluteBoundingBox (attrs n)
   \<and> preprocessNode (preprocessNode n p) p = preprocessNode n p
   \<and> relativeBoundingBox (attrs (preprocessNode n p))
       = (case p of
            None \<Rightarrow> relativeBoundingBox (attrs n)
          | Some parent \<Rightarrow>
              (case (absoluteBoundingBox (attrs n), absoluteBoundingBox parent) of
                 (Some nb, Some pb) \<Rightarrow>
                    Some \<lparr>bbox_x = bbox_x nb - bbox_x pb, bbox_y = bbox_y nb - bbox_y pb,
                          bbox_width = bbox_width nb, bbox_height = bbox_height nb\<rparr>
               | _ \<Rightarrow> relativeBoundingBox (attrs n)))
   \<and> attrs (preprocessNode n p)
       = (attrs n)\<lparr>relativeBoundingBox := relativeBoundingBox (attrs (preprocessNode n p)),
                   fills := filter is_visible (fills (attrs n)),
                   strokes := filter is_visible (strokes (attrs n))\<rparr>"
proof -
  obtain a cs where n: "n = Node a cs" by (cases n)
  have sel: "fills (attrs (preprocessNode n p)) = filter is_visible (fills (attrs n))
   \<and> strokes (attrs (preprocessNode n p)) = filter is_visible (strokes (attrs n))
   \<and> children (preprocessNode n p)
       = map (\<lambda>child. preprocessNode child (Some (attrs (preprocessNode n p)))) (children n)
   \<and> node_id (attrs (preprocessNode n p)) = node_id (attrs n)
   \<and> node_name (attrs (preprocessNode n p)) = node_name (attrs n)
   \<and> node_type (attrs (preprocessNode n p)) = node_type (attrs n)
   \<and> absoluteBoundingBox (attrs (preprocessNode n p)) = absoluteBoundingBox (attrs n)"
    unfolding n by (simp add: preprocessNode_unfold preprocess_attrs_sel del: preprocessNode.simps)
  have idem: "preprocessNode (preprocessNode n p) p = preprocessNode n p"
    by (rule preprocessNode_idem) simp
  have rel: "relativeBoundingBox (attrs (preprocessNode n p))
       = (case p of
            None \<Rightarrow> relativeBoundingBox (attrs n)
          | Some parent \<Rightarrow>
              (case (absoluteBoundingBox (attrs n), absoluteBoundingBox parent) of
                 (Some nb, Some pb) \<Rightarrow>
                    Some \<lparr>bbox_x = bbox_x nb - bbox_x pb, bbox_y = bbox_y nb - bbox_y pb,
                          bbox_width = bbox_width nb, bbox_height = bbox_height nb\<rparr>
               | _ \<Rightarrow> relativeBoundingBox (attrs n)))"
    unfolding n by (simp add: Let_def split: option.splits)
  have rest: "attrs (preprocessNode n p)
       = (attrs n)\<lparr>relativeBoundingBox := relativeBoundingBox (attrs (preprocessNode n p)),
                   fills := filter is_visible (fills (attrs n)),
                   strokes := filter is_visible (strokes (attrs n))\<rparr>"
    unfolding n by (simp add: Let_def split: option.splits)
  from sel idem rel rest show ?thesis by blast
qed

text \<open>
  C2 as the claim states it (the input tree is left unchanged) fails: the hidden fill of the
  box is gone from the input after the call, and the child has gained a relative box.
\<close>

theorem preprocessNode_changes_its_input:
  "map paint_css (fills (attrs box_doc)) = [''rgba(255, 0, 0, 1)'', ''rgba(0, 0, 255, 1)'']
   \<and> map paint_css (fills (attrs (preprocessNode box_doc None))) = [''rgba(0, 0, 255, 1)'']
   \<and> map (\<lambda>c. relativeBoundingBox (attrs c)) (children box_doc) = [None]
   \<and> map (\<lambda>c. relativeBoundingBox (attrs c)) (children (preprocessNode box_doc None))
       = [Some \<lparr>bbox_x = 5, bbox_y = 8, bbox_width = 30, bbox_height = 10\<rparr>]
   \<and> preprocessNode box_doc None \<noteq> box_doc"
  by code_simp

theorem preprocessNode_in_place_witness:
  "map paint_css (fills (attrs (preprocessNode box_doc None))) = [''rgba(0, 0, 255, 1)'']
   \<and> preprocessNode (preprocessNode box_doc None) None = preprocessNode box_doc None
   \<and> relativeBoundingBox (attrs (preprocessNode (hd (children box_doc)) (Some (attrs box_doc))))
       = Some \<lparr>bbox_x = 5, bbox_y = 8, bbox_width = 30, bbox_height = 10\<rparr>"
proof -
  have f: "map paint_css (filter is_visible (fills (attrs box_doc))) = [''rgba(0, 0, 255, 1)'']"
    by code_simp
  have b: "absoluteBoundingBox (attrs (hd (children box_doc)))
             = Some \<lparr>bbox_x = 15, bbox_y = 28, bbox_width = 30, bbox_height = 10\<rparr>
           \<and> absoluteBoundingBox (attrs box_doc)
             = Some \<lparr>bbox_x = 10, bbox_y = 20, bbox_width = 100, bbox_height = 50\<rparr>"
    by code_simp
  show ?thesis
    using preprocessNode_in_place [of box_doc None]
      preprocessNode_in_place [of "hd (children box_doc)" "Some (attrs box_doc)"] f b
    by simp
qed

subsection \<open>Determinism\<close>

lemma resetState_new: "resetState ctx = new_context"
  by (cases ctx) (simp add: resetState_def new_context_def)

lemma generateReact_cong:
  assumes "preprocessNode t None = preprocessNode t' None"
  shows "generateReact cfg ctx t = generateReact cfg ctx' t'"
  by (simp only: generateReact_def resetState_new assms)

lemma generateReact_document:
  "snd (snd (generateReact cfg ctx t)) = preprocessNode t None"
  by (simp add: generateReact_def Let_def split: prod.splits option.splits sum.splits)

text \<open>
  C4. Two invocations of \<open>generate\<close> with the same configuration and the same tree return
  the same output (the same files with the same contents, or the same error). The second
  invocation may run on the generator as the first left it, or on any other, and on the
  document as the first call left it (the first conjunct) or on the document as it was (the
  second).
\<close>

theorem generate_deterministic:
  "fst (generate cfg ctx' (snd (snd (generate cfg ctx t)))) = fst (generate cfg ctx t)
   \<and> fst (generate cfg ctx' t) = fst (generate cfg ctx t)"
proof -
  have again: "generateReact cfg ctx' (preprocessNode t None) = generateReact cfg ctx t"
    by (rule generateReact_cong) (simp add: preprocessNode_idem)
  have fresh: "generateReact cfg ctx' t = generateReact cfg ctx t"
    by (rule generateReact_cong) simp
  show ?thesis
    by (simp add: generate_def Let_def generateReact_document again fresh)
qed

subsection \<open>Isolation of the nested generation\<close>

lemma restoreState_saveState: "restoreState c (saveState ctx) = ctx"
  by (cases ctx) (simp add: restoreState_def saveState_def)

lemma analyzeInteractiveElements_new:
  "analyzeInteractiveElements (resetState ctx) n = c \<Longrightarrow>
     (interactiveElements c, stateVariables c, eventHandlers c) = analyze n ([], [], [])"
  by (auto simp: analyzeInteractiveElements_def resetState_def split: prod.splits)

lemma identify_in_keeps_analysis:
  "identify_in c n p = (c', err) \<Longrightarrow>
     interactiveElements c' = interactiveElements c \<and> stateVariables c' = stateVariables c
     \<and> eventHandlers c' = eventHandlers c"
  by (auto simp: identify_in_def split: prod.splits)

text \<open>
  C1 (as amended). When the nested generation of \<open>generateSubComponent\<close> returns, the live
  context (descriptor map, state variables, event handlers, components map, counter and
  aggregation flag) is the snapshot taken before descending. When an error is thrown inside
  the nested generation, the error reaches the caller at once and the context is not
  restored: it holds the classification of the sub-component.
\<close>

theorem generateSubComponent_context:
  assumes "generateSubComponent cfg ctx info name = (r, ctx', left)"
  shows "(\<forall>result. r = Inr result \<longrightarrow> ctx' = ctx)
       \<and> (\<forall>e. r = Inl e \<longrightarrow>
            (interactiveElements ctx', stateVariables ctx', eventHandlers ctx')
              = analyze (ci_node info) ([], [], []))"
proof -
  define c2 where "c2 = analyzeInteractiveElements (resetState ctx) (ci_node info)"
  have a: "(interactiveElements c2, stateVariables c2, eventHandlers c2) = analyze (ci_node info) ([], [], [])"
    using analyzeInteractiveElements_new [of ctx "ci_node info" c2] c2_def by simp
  obtain c3 err where id3: "(if cfg_componentize cfg
                        then identify_in c2 (ci_node info) (Some (node_id (attrs (ci_node info))))
                        else (c2, None)) = (c3, err)"
    by (cases "(if cfg_componentize cfg
                        then identify_in c2 (ci_node info) (Some (node_id (attrs (ci_node info))))
                        else (c2, None))") auto
  have k3: "interactiveElements c3 = interactiveElements c2 \<and> stateVariables c3 = stateVariables c2
     \<and> eventHandlers c3 = eventHandlers c2"
    using id3 identify_in_keeps_analysis by (auto split: if_splits)
  have step: "(case (c3, err) of
           (c3, Some e) \<Rightarrow> (Inl e, c3, components c3)
         | (c3, None) \<Rightarrow>
             let c4 = c3\<lparr>useObjectState := (length (stateVariables c3) > 3)\<rparr>;
                 jsxTransformer = \<lparr>jt_interactiveElements = interactiveElements c4,
                                   jt_components = components c4,
                                   jt_useObjectState = useObjectState c4\<rparr>
             in case transform jsxTransformer (ci_node info) 1 name of
                  Inl e \<Rightarrow> (Inl e, c4, components c4)
                | Inr subJsx \<Rightarrow>
                    let subCss = css_generate (ci_node info) name;
                        subUsedComponentIds = collectUsedComponents c4 (ci_node info) [];
                        result = unit_files cfg c4 (''components/'' @ name @ ''/'')
                                   name subJsx subCss True subUsedComponentIds
                    in (Inr result, restoreState c4 (saveState ctx), components c4)) = (r, ctx', left)"
    using assms unfolding generateSubComponent_def Let_def c2_def [symmetric] id3 .
  show ?thesis
  proof (cases err)
    case (Some e)
    with step a k3 show ?thesis by auto
  next
    case None
    let ?c4 = "c3\<lparr>useObjectState := (length (stateVariables c3) > 3)\<rparr>"
    let ?t = "\<lparr>jt_interactiveElements = interactiveElements ?c4, jt_components = components ?c4,
               jt_useObjectState = useObjectState ?c4\<rparr>"
    show ?thesis
    proof (cases "transform ?t (ci_node info) 1 name")
      case (Inl e)
      with step None a k3 show ?thesis by (auto simp: Let_def)
    next
      case (Inr subJsx)
      with step None show ?thesis by (auto simp: Let_def restoreState_saveState)
    qed
  qed
qed

text \<open>
  C1 as the claim states it (the snapshot is restored also when an error is thrown) fails.
  In the malformed page the text inside the card has a number for its type. The generation
  of the card throws; the context it leaves holds the card's own boundary map and no event
  handler, while the snapshot held both boundaries of the page and the handler of the
  footer. The same state is what \<open>generate\<close> leaves behind on that document.
\<close>

theorem generateSubComponent_error_no_restore:
  "(case generateSubComponent react_config (root_context bad_page_doc)
            \<lparr>ci_name = ''Card'', ci_node = bad_card_node, ci_parentId = Some ''0:1''\<rparr> ''Card'' of
      (r, c, left) \<Rightarrow> (r, map fst (components c), map eh_id (eventHandlers c)))
     = (Inl TypeError, [''1:1''], [])
   \<and> (map fst (components (root_context bad_page_doc)), map eh_id (eventHandlers (root_context bad_page_doc)))
     = ([''1:1'', ''1:3''], [''submitFooter''])
   \<and> (case generate react_config new_context bad_page_doc of
      (r, c, doc) \<Rightarrow> (r, map fst (components c), map eh_id (eventHandlers c)))
     = (Inl TypeError, [''1:1''], [])"
  by code_simp

theorem generateSubComponent_context_witness:
  "\<not> isl (fst (generateSubComponent react_config (root_context page_doc)
          \<lparr>ci_name = ''Card'', ci_node = card_node, ci_parentId = Some ''0:1''\<rparr> ''Card''))
   \<and> fst (snd (generateSubComponent react_config (root_context page_doc)
          \<lparr>ci_name = ''Card'', ci_node = card_node, ci_parentId = Some ''0:1''\<rparr> ''Card'')) = root_context page_doc"
proof -
  let ?X = "generateSubComponent react_config (root_context page_doc)
          \<lparr>ci_name = ''Card'', ci_node = card_node, ci_parentId = Some ''0:1''\<rparr> ''Card''"
  have ok: "\<not> isl (fst ?X)" by code_simp
  have "?X = (fst ?X, fst (snd ?X), snd (snd ?X))" by simp
  from generateSubComponent_context [OF this] ok show ?thesis
    by (cases "fst ?X") auto
qed

subsection \<open>Derived names\<close>

lemma replace_sep_upper_nonempty: "s \<noteq> [] \<Longrightarrow> replace_sep_upper s \<noteq> []"
  by (cases s) (auto split: option.splits)

lemma toPascalCase_nonempty: "toPascalCase s \<noteq> []"
proof -
  have "(case r of c # cs \<Rightarrow> if is_digit c then CHR ''N'' # r else r | [] \<Rightarrow> r) \<noteq> []"
    if "r \<noteq> []" for r using that by (cases r) auto
  moreover have "(case r of c # cs \<Rightarrow> if is_lower c then toUpperCase_char c # cs else r | [] \<Rightarrow> r) \<noteq> []"
    if "r \<noteq> []" for r using that by (cases r) auto
  ultimately show ?thesis
    by (simp add: toPascalCase_def Let_def replace_sep_upper_nonempty)
qed

lemma derive_component_name_nonempty: "fst (derive_component_name a k) \<noteq> []"
  by (simp add: derive_component_name_def toPascalCase_nonempty)

text \<open>
  A name that \<open>toPascalCase\<close> returns does not start with a small letter, so the names of
  the boundaries that \<open>identify\<close> registers do not.
\<close>

lemma lower_letters: "is_lower c \<Longrightarrow> c \<in> set ''abcdefghijklmnopqrstuvwxyz''"
proof (cases c)
  case (Char b0 b1 b2 b3 b4 b5 b6 b7)
  assume "is_lower c"
  then show ?thesis
    unfolding Char is_lower_def less_eq_char_def
    by (cases b0; cases b1; cases b2; cases b3; cases b4; cases b5; cases b6; cases b7) simp_all
qed

lemma toUpperCase_char_not_lower: "is_lower c \<Longrightarrow> \<not> is_lower (toUpperCase_char c)"
proof -
  assume "is_lower c"
  then have "c \<in> set ''abcdefghijklmnopqrstuvwxyz''" by (rule lower_letters)
  then show ?thesis
    by (auto simp: toUpperCase_char_def is_lower_def less_eq_char_def)
qed

lemma toPascalCase_head: "\<not> is_lower (hd (toPascalCase s))"
proof -
  have start: "\<not> is_lower (CHR ''C'')" "\<not> is_lower (CHR ''N'')"
    by (simp_all add: is_lower_def less_eq_char_def)
  show ?thesis
    using start replace_sep_upper_nonempty [of "trim (strip_special s)"]
    by (auto simp: toPascalCase_def Let_def toUpperCase_char_not_lower split: list.splits)
qed

lemma derive_component_name_head: "\<not> is_lower (hd (fst (derive_component_name a k)))"
  by (simp add: derive_component_name_def toPascalCase_head)

subsection \<open>Markup rendering\<close>

lemma transform_not_skipped:
  "shouldSkipNode t n = Inr False \<Longrightarrow>
     transform t n depth cur = render_node t n depth cur (transform_children t (children n) (depth + 1) cur)"
  by (cases n) simp


text \<open>
  What the plain rendering can look like: nothing, the indentation and a text that does not
  start with \<open><\<close>, or the indentation and a tag whose name starts with a small letter.
\<close>

lemma mapFigmaTypeToHTML_cases: "mapFigmaTypeToHTML ty \<in> {''div'', ''p'', ''svg''}"
  by (simp add: mapFigmaTypeToHTML_def Let_def)

lemma escapeHTML_head: "escapeHTML x = c # r \<Longrightarrow> c \<noteq> CHR ''<''"
  by (cases x) (auto simp: escapeHTML_def escapeHTML_char_def split: if_splits)

lemma mapFigmaTypeToHTML_not_selfClosing: "\<not> isSelfClosing (mapFigmaTypeToHTML ty)"
  using mapFigmaTypeToHTML_cases [of ty] by (auto simp: isSelfClosing_def)

lemma render_plain_shape:
  assumes "render_plain t n depth ty rendered = Inr s"
  shows "s = [] \<or> (\<exists>rest. s = indent_of depth @ rest
                      \<and> (rest = [] \<or> hd rest \<noteq> CHR ''<'' \<or> (\<exists>c r. rest = CHR ''<'' # c # r \<and> is_lower c)))"
proof -
  define tagName where "tagName =
     (case map_of (jt_interactiveElements t) (node_id (attrs n)) of
        None \<Rightarrow> mapFigmaTypeToHTML ty
      | Some el \<Rightarrow>
          (case ie_type el of Button \<Rightarrow> ''button'' | Input \<Rightarrow> ''input''
           | Accordion \<Rightarrow> mapFigmaTypeToHTML ty | Toggle \<Rightarrow> mapFigmaTypeToHTML ty))"
  define props where "props =
     (case map_of (jt_interactiveElements t) (node_id (attrs n)) of
        None \<Rightarrow> []
      | Some el \<Rightarrow>
          (case ie_type el of
             Input \<Rightarrow>
               [''type='' @ dq @ ''text'' @ dq,
                ''value={'' @ (if jt_useObjectState t then ''state.'' @ sanitizeVariableName (ie_id el)
                               else sanitizeVariableName (ie_id el)) @ ''}'']
           | _ \<Rightarrow> []))"
  define handlers where "handlers =
     (case map_of (jt_interactiveElements t) (node_id (attrs n)) of
        None \<Rightarrow> []
      | Some el \<Rightarrow>
          (case ie_type el of
             Button \<Rightarrow> [''onClick={handle'' @ toPascalCase (ie_id el) @ ''}'']
           | Input \<Rightarrow> [''onChange={handle'' @ toPascalCase (ie_id el) @ ''Change}'']
           | Accordion \<Rightarrow> [''onClick={handle'' @ toPascalCase (ie_id el) @ ''Toggle}'']
           | Toggle \<Rightarrow> [''onClick={handle'' @ toPascalCase (ie_id el) @ ''Toggle}'']))"
  define allProps where "allProps = join '' '' (filter (\<lambda>s. s \<noteq> []) (getClassName n False # props @ handlers))"
  have "tagName \<in> {''div'', ''p'', ''svg'', ''button'', ''input''}"
    using mapFigmaTypeToHTML_cases [of ty]
    by (auto simp: tagName_def split: option.splits kind.splits)
  moreover have "is_lower (CHR ''d'')" "is_lower (CHR ''p'')" "is_lower (CHR ''s'')"
      "is_lower (CHR ''b'')" "is_lower (CHR ''i'')"
    by (simp_all add: is_lower_def less_eq_char_def)
  ultimately obtain c r where tag: "tagName = c # r" and low: "is_lower c"
    by fastforce
  define P where "P = (\<lambda>s. s = [] \<or> (\<exists>rest. s = indent_of depth @ rest
                      \<and> (rest = [] \<or> hd rest \<noteq> CHR ''<'' \<or> (\<exists>c r. rest = CHR ''<'' # c # r \<and> is_lower c))))"
  have shape: "P (indent_of depth @ CHR ''<'' # d # y)" if "is_lower d" for d y
    unfolding P_def using that by blast
  have t1: "P (indent_of depth @ ''<'' @ tagName @ x)" for x
    using shape [OF low, of "r @ x"] by (simp add: tag)
  have "is_lower (CHR ''d'')" by (simp add: is_lower_def less_eq_char_def)
  then have t2: "P (indent_of depth @ ''<div'' @ x)" for x
    using shape [of "CHR ''d''" "''iv'' @ x"] by simp
  have t3: "P (indent_of depth @ escapeHTML x)" for x
  proof (cases "escapeHTML x")
    case Nil
    then show ?thesis unfolding P_def by simp
  next
    case (Cons e es)
    then have "e \<noteq> CHR ''<''" by (rule escapeHTML_head)
    then have "hd (escapeHTML x) \<noteq> CHR ''<''" by (simp add: Cons)
    then show ?thesis unfolding P_def by blast
  qed
  have t4: "P []" by (simp add: P_def)
  define isText where "isText \<longleftrightarrow> ty = ''text'' \<and> characters (attrs n) \<noteq> []"
  define ct where "ct = (\<lambda>rs. if children n \<noteq> [] then nl @ join nl rs @ nl @ indent_of depth else [])"
  define x1 where "x1 = (if allProps \<noteq> [] then '' '' @ allProps else [])
                @ ''>'' @ escapeHTML (characters (attrs n)) @ ''</'' @ tagName @ ''>''"
  define x2 where "x2 = (\<lambda>rs. getClassName n False @ ''>'' @ nl @ indent_of depth @ ''  <'' @ tagName
                                @ (if props \<noteq> [] then '' '' @ join '' '' props else [])
                                @ (if handlers \<noteq> [] then '' '' @ join '' '' handlers else [])
                                @ '' />'' @ ct rs @ nl @ indent_of depth @ ''</div>'')"
  define x3 where "x3 = (if allProps \<noteq> [] then '' '' @ allProps else []) @ '' />''"
  define x5 where "x5 = (\<lambda>rs. (if trim allProps \<noteq> [] then '' '' @ trim allProps else [])
                          @ ''>'' @ ct rs @ ''</'' @ tagName @ ''>'')"
  define b2 where "b2 = (\<lambda>rs. \<not> hasMeaningfulStyle n \<and> trim (ct rs) = []
                        \<and> map_of (jt_interactiveElements t) (node_id (attrs n)) = None)"
  define b3 where "b3 = (\<lambda>rs. trim (ct rs) \<noteq> [] \<and> length (children n) = 1 \<and> \<not> hasMeaningfulStyle n
                        \<and> node_type (attrs (hd (children n))) = Str ''TEXT''
                        \<and> characters (attrs (hd (children n))) \<noteq> [])"
  have folded: "render_plain t n depth ty rendered =
     (if isText
      then Inr (indent_of depth @ ''<'' @ tagName @ x1)
      else (case rendered of
              Inl e \<Rightarrow> Inl e
            | Inr rs \<Rightarrow>
                if isSelfClosing tagName
                then (if trim (ct rs) \<noteq> []
                      then Inr (indent_of depth @ ''<div'' @ x2 rs)
                      else Inr (indent_of depth @ ''<'' @ tagName @ x3))
                else if b2 rs then Inr []
                else if b3 rs then Inr (indent_of depth @ escapeHTML (characters (attrs (hd (children n)))))
                else Inr (indent_of depth @ ''<'' @ tagName @ x5 rs)))"
    unfolding render_plain_def Let_def allProps_def props_def handlers_def tagName_def
      isText_def ct_def x1_def x2_def x3_def x5_def b2_def b3_def ..
  have "P s"
    using assms [unfolded folded] t1 t2 t3 t4
    by (auto split: if_splits sum.splits simp del: append_assoc append.simps)
  then show ?thesis unfolding P_def .
qed

lemma render_plain_text:
  assumes "map_of (jt_interactiveElements t) (node_id (attrs n)) = None"
    and "ty = ''text''" and "characters (attrs n) \<noteq> []"
  shows "render_plain t n depth ty rendered
           = Inr (indent_of depth @ ''<p''
                  @ (if getClassName n False \<noteq> [] then '' '' @ getClassName n False else [])
                  @ ''>'' @ escapeHTML (characters (attrs n)) @ ''</p>'')"
proof -
  have "mapFigmaTypeToHTML ''text'' = ''p''" by code_simp
  with assms show ?thesis by (simp add: render_plain_def Let_def)
qed

lemma render_plain_normal:
  assumes "map_of (jt_interactiveElements t) (node_id (attrs n)) = None"
    and "hasMeaningfulStyle n" and "\<not> (ty = ''text'' \<and> characters (attrs n) \<noteq> [])"
  shows "render_plain t n depth ty rendered
           = (case rendered of
                Inl e \<Rightarrow> Inl e
              | Inr rs \<Rightarrow>
                  Inr (indent_of depth @ ''<'' @ mapFigmaTypeToHTML ty
                       @ (if trim (getClassName n False) \<noteq> [] then '' '' @ trim (getClassName n False) else [])
                       @ ''>''
                       @ (if children n \<noteq> [] then nl @ join nl rs @ nl @ indent_of depth else [])
                       @ ''</'' @ mapFigmaTypeToHTML ty @ ''>''))"
proof -
  have t0: "trim [] = []" by (simp add: trim_def)
  show ?thesis
    using assms mapFigmaTypeToHTML_not_selfClosing [of ty]
    by (auto simp: render_plain_def Let_def t0 split: sum.splits)
qed

lemma reference_tag_shape:
  assumes "Inr (indent_of depth @ ''<'' @ nm @ x @ '' />'') = render_plain t n depth ty rendered"
    and "x = [] \<or> hd x = CHR '' ''"
  shows "nm \<noteq> [] \<and> is_lower (hd nm)"
proof -
  from render_plain_shape [OF assms(1) [symmetric]]
  obtain rest where r: "indent_of depth @ ''<'' @ nm @ x @ '' />'' = indent_of depth @ rest"
    and c: "rest = [] \<or> hd rest \<noteq> CHR ''<'' \<or> (\<exists>c r. rest = CHR ''<'' # c # r \<and> is_lower c)"
    by auto
  from r have rest: "rest = CHR ''<'' # (nm @ x @ '' />'')" by simp
  with c obtain c' r' where cr: "nm @ x @ '' />'' = c' # r'" and low: "is_lower c'" by auto
  have sp: "\<not> is_lower (CHR '' '')" by (simp add: is_lower_def less_eq_char_def)
  show ?thesis
  proof (cases nm)
    case Nil
    with cr assms(2) have "c' = CHR '' ''" by (cases x) auto
    with low sp show ?thesis by simp
  next
    case (Cons a as)
    with cr low show ?thesis by simp
  qed
qed

text \<open>
  C7 (as amended). During markup rendering, take a node that the wrapper elision of step 1
  does not replace by its child, and that is registered as a boundary.

  If its generated name differs from the current component's name, the node is replaced by
  the self-closing reference tag: the indentation, \<open><\<close>, the name, the class-name prop if
  the node has a class name, and \<open> />\<close>. The children are not rendered (an error in a
  child cannot reach the result).

  If its generated name equals the current component's name, the node is rendered as plain
  markup, and the result is no self-closing tag of a name that does not start with a small
  letter, whatever its props (the names of boundaries never start with one). For a node that is not interactive: a text
  node with characters gives a \<open>p\<close> element with the escaped characters; any other node
  with a meaningful style gives its own tag around the renderings of its children, which
  are rendered one level deeper, and an error in a child is the result.
\<close>

theorem boundary_rendering:
  assumes "shouldSkipNode t n = Inr False"
    and "type_lower (node_type (attrs n)) = Inr lowered"
    and "map_of (jt_components t) (node_id (attrs n)) = Some info"
  shows "(ci_name info \<noteq> cur \<longrightarrow>
            transform t n depth cur
              = Inr (indent_of depth @ ''<'' @ ci_name info
                     @ (if getClassName n False = [] then [] else '' '' @ trim (getClassName n False))
                     @ '' />''))
       \<and> (ci_name info = cur \<longrightarrow>
            transform t n depth cur
              = render_plain t n depth (type_or_div lowered)
                  (transform_children t (children n) (depth + 1) cur)
            \<and> ((nm = [] \<or> \<not> is_lower (hd nm)) \<and> (props = [] \<or> hd props = CHR '' '') \<longrightarrow>
                 transform t n depth cur \<noteq> Inr (indent_of depth @ ''<'' @ nm @ props @ '' />''))
            \<and> (map_of (jt_interactiveElements t) (node_id (attrs n)) = None
                 \<and> type_or_div lowered = ''text'' \<and> characters (attrs n) \<noteq> [] \<longrightarrow>
                 transform t n depth cur
                   = Inr (indent_of depth @ ''<p''
                          @ (if getClassName n False \<noteq> [] then '' '' @ getClassName n False else [])
                          @ ''>'' @ escapeHTML (characters (attrs n)) @ ''</p>''))
            \<and> (map_of (jt_interactiveElements t) (node_id (attrs n)) = None
                 \<and> hasMeaningfulStyle n
                 \<and> \<not> (type_or_div lowered = ''text'' \<and> characters (attrs n) \<noteq> []) \<longrightarrow>
                 transform t n depth cur
                   = (case transform_children t (children n) (depth + 1) cur of
                        Inl e \<Rightarrow> Inl e
                      | Inr rs \<Rightarrow>
                          Inr (indent_of depth @ ''<'' @ mapFigmaTypeToHTML (type_or_div lowered)
                               @ (if trim (getClassName n False) \<noteq> []
                                  then '' '' @ trim (getClassName n False) else [])
                               @ ''>''
                               @ (if children n \<noteq> [] then nl @ join nl rs @ nl @ indent_of depth else [])
                               @ ''</'' @ mapFigmaTypeToHTML (type_or_div lowered) @ ''>''))))"
proof -
  have tr: "transform t n depth cur =
           (if ci_name info = cur
            then render_plain t n depth (type_or_div lowered)
                   (transform_children t (children n) (depth + 1) cur)
            else Inr (component_tag depth (ci_name info) n))"
    using assms by (simp add: transform_not_skipped render_node_def)
  have tag: "component_tag depth name n
               = indent_of depth @ ''<'' @ name
                 @ (if getClassName n False = [] then [] else '' '' @ trim (getClassName n False))
                 @ '' />''" for name
    by (simp add: component_tag_def getComponentProps_def Let_def)
  have other: "transform t n depth cur
              = Inr (indent_of depth @ ''<'' @ ci_name info
                     @ (if getClassName n False = [] then [] else '' '' @ trim (getClassName n False))
                     @ '' />'')" if "ci_name info \<noteq> cur"
    using that tr tag by simp
  have own: "transform t n depth cur
              = render_plain t n depth (type_or_div lowered)
                  (transform_children t (children n) (depth + 1) cur)" if "ci_name info = cur"
    using that tr by simp
  have never: "transform t n depth cur \<noteq> Inr (indent_of depth @ ''<'' @ nm @ props @ '' />'')"
    if eq: "ci_name info = cur" and nm: "nm = [] \<or> \<not> is_lower (hd nm)"
      and props: "props = [] \<or> hd props = CHR '' ''"
  proof
    assume "transform t n depth cur = Inr (indent_of depth @ ''<'' @ nm @ props @ '' />'')"
    then have "Inr (indent_of depth @ ''<'' @ nm @ props @ '' />'')
                 = render_plain t n depth (type_or_div lowered)
                     (transform_children t (children n) (depth + 1) cur)"
      using own [OF eq] by simp
    then have "nm \<noteq> [] \<and> is_lower (hd nm)"
      using props by (rule reference_tag_shape)
    with nm show False by simp
  qed
  from other own never render_plain_text render_plain_normal show ?thesis
    by (simp del: append_assoc append.simps)
qed

text \<open>
  C7 as the claim states it (every registered boundary with another name becomes a
  reference tag) fails: the wrapper elision comes first. The card of this page is a group
  around one text and is registered as the boundary \<open>Card\<close>; rendered inside \<open>Page\<close> it
  is the markup of its text, not the tag \<open><Card className="card" />\<close>.
\<close>

theorem boundary_group_wrapper_is_elided:
  "map_option ci_name (map_of (jt_components (transformer_of (root_context group_page))) (node_id (attrs group_card)))
     = Some ''Card''
   \<and> transform (transformer_of (root_context group_page)) group_card 2 ''Page''
     = Inr (''    <p  className='' @ dq @ ''title'' @ dq @ ''>Hi</p>'')
   \<and> component_tag 2 ''Card'' group_card = ''    <Card className='' @ dq @ ''card'' @ dq @ '' />''
   \<and> transform (transformer_of (root_context group_page)) group_card 2 ''Page''
     \<noteq> Inr (component_tag 2 ''Card'' group_card)"
  by code_simp

theorem boundary_rendering_witness:
  "transform (transformer_of (root_context page_doc)) card_node 2 ''Page''
     = Inr (''    <Card className='' @ dq @ ''card'' @ dq @ '' />'')
   \<and> transform (transformer_of (root_context box_doc)) box_doc 1 ''Box''
     \<noteq> Inr (''  <Box className='' @ dq @ ''box'' @ dq @ '' />'')
   \<and> transform (transformer_of (root_context box_doc)) box_doc 1 ''Box''
     = Inr (''  <div className='' @ dq @ ''box'' @ dq @ ''>'' @ nl
            @ ''    <p  className='' @ dq @ ''label'' @ dq @ ''>Hi</p>'' @ nl @ ''  </div>'')
   \<and> transform (transformer_of (root_context text_card)) text_card 1 ''CardTitle''
     = Inr (''  <p  className='' @ dq @ ''card-title'' @ dq @ ''>Hi</p>'')"
proof -
  let ?t = "transformer_of (root_context page_doc)"
  let ?b = "transformer_of (root_context box_doc)"
  let ?c = "transformer_of (root_context text_card)"
  let ?card = "\<lparr>ci_name = ''Card'', ci_node = card_node, ci_parentId = Some ''0:1''\<rparr>"
  let ?box = "\<lparr>ci_name = ''Box'', ci_node = box_doc, ci_parentId = None\<rparr>"
  let ?title = "\<lparr>ci_name = ''CardTitle'', ci_node = text_card, ci_parentId = None\<rparr>"
  have p1: "shouldSkipNode ?t card_node = Inr False" by code_simp
  have p2: "type_lower (node_type (attrs card_node)) = Inr (Some ''frame'')" by code_simp
  have p3: "map_of (jt_components ?t) (node_id (attrs card_node)) = Some ?card" by code_simp
  have p4: "ci_name ?card \<noteq> ''Page''" by simp
  have p5: "indent_of 2 @ ''<'' @ ci_name ?card
              @ (if getClassName card_node False = [] then [] else '' '' @ trim (getClassName card_node False))
              @ '' />''
            = ''    <Card className='' @ dq @ ''card'' @ dq @ '' />''"
    by code_simp
  have r1: "transform ?t card_node 2 ''Page'' = Inr (''    <Card className='' @ dq @ ''card'' @ dq @ '' />'')"
    using boundary_rendering [OF p1 p2 p3, where cur = "''Page''" and depth = 2] p4
    unfolding p5 by blast
  have b1: "shouldSkipNode ?b box_doc = Inr False" by code_simp
  have b2: "type_lower (node_type (attrs box_doc)) = Inr (Some ''frame'')" by code_simp
  have b3: "map_of (jt_components ?b) (node_id (attrs box_doc)) = Some ?box" by code_simp
  have b4: "ci_name ?box = ''Box''" by simp
  have b5: "(''Box'' = [] \<or> \<not> is_lower (hd ''Box''))
            \<and> ('' className='' @ dq @ ''box'' @ dq = [] \<or> hd ('' className='' @ dq @ ''box'' @ dq) = CHR '' '')"
    by code_simp
  have b6: "indent_of 1 @ ''<'' @ ''Box'' @ ('' className='' @ dq @ ''box'' @ dq) @ '' />''
            = ''  <Box className='' @ dq @ ''box'' @ dq @ '' />''"
    by code_simp
  have b7: "map_of (jt_interactiveElements ?b) (node_id (attrs box_doc)) = None
            \<and> hasMeaningfulStyle box_doc
            \<and> \<not> (type_or_div (Some ''frame'') = ''text'' \<and> characters (attrs box_doc) \<noteq> [])"
    by code_simp
  have b8: "(case transform_children ?b (children box_doc) (1 + 1) ''Box'' of
               Inl e \<Rightarrow> Inl e
             | Inr rs \<Rightarrow>
                 Inr (indent_of 1 @ ''<'' @ mapFigmaTypeToHTML (type_or_div (Some ''frame''))
                      @ (if trim (getClassName box_doc False) \<noteq> []
                         then '' '' @ trim (getClassName box_doc False) else [])
                      @ ''>''
                      @ (if children box_doc \<noteq> [] then nl @ join nl rs @ nl @ indent_of 1 else [])
                      @ ''</'' @ mapFigmaTypeToHTML (type_or_div (Some ''frame'')) @ ''>''))
            = Inr (''  <div className='' @ dq @ ''box'' @ dq @ ''>'' @ nl
                   @ ''    <p  className='' @ dq @ ''label'' @ dq @ ''>Hi</p>'' @ nl @ ''  </div>'')"
    by code_simp
  note box = boundary_rendering [OF b1 b2 b3, where cur = "''Box''" and depth = 1 and nm = "''Box''"
      and props = "'' className='' @ dq @ ''box'' @ dq"]
  have r2: "transform ?b box_doc 1 ''Box'' \<noteq> Inr (''  <Box className='' @ dq @ ''box'' @ dq @ '' />'')"
    using box b4 b5 unfolding b6 by blast
  have r3: "transform ?b box_doc 1 ''Box''
     = Inr (''  <div className='' @ dq @ ''box'' @ dq @ ''>'' @ nl
            @ ''    <p  className='' @ dq @ ''label'' @ dq @ ''>Hi</p>'' @ nl @ ''  </div>'')"
    using box b4 b7 unfolding b8 by blast
  have c1: "shouldSkipNode ?c text_card = Inr False" by code_simp
  have c2: "type_lower (node_type (attrs text_card)) = Inr (Some ''text'')" by code_simp
  have c3: "map_of (jt_components ?c) (node_id (attrs text_card)) = Some ?title" by code_simp
  have c4: "ci_name ?title = ''CardTitle''" by simp
  have c5: "map_of (jt_interactiveElements ?c) (node_id (attrs text_card)) = None
            \<and> type_or_div (Some ''text'') = ''text'' \<and> characters (attrs text_card) \<noteq> []"
    by code_simp
  have c6: "indent_of 1 @ ''<p''
              @ (if getClassName text_card False \<noteq> [] then '' '' @ getClassName text_card False else [])
              @ ''>'' @ escapeHTML (characters (attrs text_card)) @ ''</p>''
            = ''  <p  className='' @ dq @ ''card-title'' @ dq @ ''>Hi</p>''"
    by code_simp
  have r4: "transform ?c text_card 1 ''CardTitle''
     = Inr (''  <p  className='' @ dq @ ''card-title'' @ dq @ ''>Hi</p>'')"
    using boundary_rendering [OF c1 c2 c3, where cur = "''CardTitle''" and depth = 1] c4 c5
    unfolding c6 by blast
  from r1 r2 r3 r4 show ?thesis by blast
qed




subsection \<open>State aggregation\<close>



lemma repeated_identifier_is_counted:
  "map sv_id (stateVariables (analyzeInteractiveElements new_context repeat_form_doc))
     = [''nameInput'', ''mailInput'', ''cityInput'', ''cityInput'']
   \<and> useObjectState (analyzeInteractiveElements new_context repeat_form_doc)"
  by code_simp

subsection \<open>A root that is a boundary\<close>

lemma identify_boundary:
  assumes "type_lower (node_type (attrs n)) = Inr nodeType" and "shouldComponentize n nodeType depth"
  shows "identify n depth p (m, k) =
           ((map_set (node_id (attrs n))
               \<lparr>ci_name = fst (derive_component_name (attrs n) k), ci_node = n, ci_parentId = p\<rparr> m,
             snd (derive_component_name (attrs n) k)), None)"
proof (cases n)
  case (Node a cs)
  obtain nm k' where d: "derive_component_name a k = (nm, k')" by (cases "derive_component_name a k")
  then have "nm \<noteq> []" using derive_component_name_nonempty [of a k] by simp
  with assms Node d show ?thesis by simp
qed

lemma hasRepeatedStructure_preprocess:
  "hasRepeatedStructure (preprocessNode n p) = hasRepeatedStructure n"
proof (cases n)
  case (Node a cs)
  have k: "node_type (attrs (preprocessNode c q)) = node_type (attrs c)
        \<and> length (children (preprocessNode c q)) = length (children c)" for c q
    by (cases c) (simp add: preprocessNode_unfold preprocess_attrs_sel del: preprocessNode.simps)
  show ?thesis
    unfolding Node
    by (cases cs; cases "tl cs")
       (simp_all add: hasRepeatedStructure_def preprocessNode_unfold k del: preprocessNode.simps)
qed

lemma shouldComponentize_preprocess:
  "shouldComponentize (preprocessNode n p) ty d = shouldComponentize n ty d"
proof -
  have "node_name (attrs (preprocessNode n p)) = node_name (attrs n)"
    "length (children (preprocessNode n p)) = length (children n)"
    by (cases n; simp add: preprocessNode_unfold preprocess_attrs_sel del: preprocessNode.simps)+
  then show ?thesis
    by (simp add: shouldComponentize_def hasRepeatedStructure_preprocess)
qed


lemma unit_files_keys:
  "map fst (unit_files cfg ctx dir name jsx css sub used) =
     (if cfg_useTypeScript cfg
      then [dir @ name @ ''.tsx'', dir @ name @ ''.css'', dir @ name @ ''.types.ts'']
      else [dir @ name @ ''.jsx'', dir @ name @ ''.css''])"
  by (simp add: unit_files_def Let_def)

lemma root_component_name_preprocess:
  "root_component_name cfg (preprocessNode n p) = root_component_name cfg n"
  by (cases n) (simp add: root_component_name_def preprocessNode_unfold preprocess_attrs_sel
                     del: preprocessNode.simps)

text \<open>
  C10. When the root node itself satisfies a boundary rule, \<open>generate\<close> emits the files of
  one unit only, the root unit under the root's derived name: the loop over the components
  map skips the entry of the root node, and no sub-component unit is emitted for it.
\<close>

theorem root_boundary_single_unit:
  assumes "cfg_componentize cfg"
    and "type_lower (node_type (attrs figmaData)) = Inr nodeType"
    and "shouldComponentize figmaData nodeType 0"
    and "generateReact cfg ctx figmaData = (Inr result, ctx', doc)"
  shows "map fst result =
           (let componentName = root_component_name cfg figmaData;
                dir = ''components/'' @ componentName @ ''/''
            in if cfg_useTypeScript cfg
               then [dir @ componentName @ ''.tsx'', dir @ componentName @ ''.css'',
                     dir @ componentName @ ''.types.ts'']
               else [dir @ componentName @ ''.jsx'', dir @ componentName @ ''.css''])"
proof -
  define P where "P = preprocessNode figmaData None"
  define c1 where "c1 = analyzeInteractiveElements new_context P"
  define info where "info = \<lparr>ci_name = fst (derive_component_name (attrs P) 0), ci_node = P,
                               ci_parentId = None\<rparr>"
  define c2 where "c2 = c1\<lparr>components := [(node_id (attrs P), info)],
                            componentCounter := snd (derive_component_name (attrs P) 0)\<rparr>"
  define N where "N = root_component_name cfg P"
  have ty: "type_lower (node_type (attrs P)) = Inr nodeType"
    using assms(2) unfolding P_def
    by (cases figmaData) (simp add: preprocessNode_unfold preprocess_attrs_sel del: preprocessNode.simps)
  have sc: "shouldComponentize P nodeType 0"
    using assms(3) unfolding P_def by (simp add: shouldComponentize_preprocess)
  have c1c: "components c1 = [] \<and> componentCounter c1 = 0"
    by (simp add: c1_def analyzeInteractiveElements_def new_context_def split: prod.splits)
  have idn: "identify_in c1 P None = (c2, None)"
    using identify_boundary [OF ty sc, of None "[]" 0] c1c
    by (simp add: identify_in_def c2_def info_def)
  have comps: "components c2 = [(node_id (attrs P), info)]"
    by (simp add: c2_def)
  have loop: "emit_subcomponents cfg (node_id (attrs P)) used True [(node_id (attrs P), info)] gen r c2
                = (Inr r, c2)" for used gen r
    by simp
  let ?t = "\<lparr>jt_interactiveElements = interactiveElements c2, jt_components = components c2,
               jt_useObjectState = useObjectState c2\<rparr>"
  have gr: "generateReact cfg ctx figmaData =
              (case transform ?t P 1 N of
                  Inl e \<Rightarrow> (Inl e, c2, P)
                | Inr jsx \<Rightarrow>
                    (Inr (unit_files cfg c2 (''components/'' @ N @ ''/'') N jsx (css_generate P N) True
                           (collectUsedComponents c2 P [])), c2, P))"
    unfolding generateReact_def resetState_new Let_def P_def [symmetric] c1_def [symmetric]
      N_def [symmetric]
    using assms(1) by (simp add: idn comps loop split: sum.splits)
  have unfolded: "(case transform ?t P 1 N of
                  Inl e \<Rightarrow> (Inl e, c2, P)
                | Inr jsx \<Rightarrow>
                    (Inr (unit_files cfg c2 (''components/'' @ N @ ''/'') N jsx (css_generate P N) True
                           (collectUsedComponents c2 P [])), c2, P)) = (Inr result, ctx', doc)"
    using assms(4) gr by simp
  then obtain jsx where
    "result = unit_files cfg c2 (''components/'' @ N @ ''/'') N jsx (css_generate P N) True
                (collectUsedComponents c2 P [])"
    by (cases "transform ?t P 1 N") auto
  then show ?thesis
    by (simp add: unit_files_keys N_def P_def root_component_name_preprocess Let_def)
qed

theorem root_boundary_single_unit_witness:
  "\<not> isl (fst (generateReact react_config new_context card_node))
   \<and> map fst (projr (fst (generateReact react_config new_context card_node)))
     = [''components/Card/Card.tsx'', ''components/Card/Card.css'', ''components/Card/Card.types.ts'']"
proof -
  let ?X = "generateReact react_config new_context card_node"
  have ok: "\<not> isl (fst ?X)" by code_simp
  then have X: "?X = (Inr (projr (fst ?X)), fst (snd ?X), snd (snd ?X))"
    by (cases "fst ?X") (auto simp: prod_eq_iff)
  have h1: "cfg_componentize react_config" by code_simp
  have h2: "type_lower (node_type (attrs card_node)) = Inr (Some ''frame'')" by code_simp
  have h3: "shouldComponentize card_node (Some ''frame'') 0" by code_simp
  have nm: "root_component_name react_config card_node = ''Card''" by code_simp
  have ts: "cfg_useTypeScript react_config" by code_simp
  show ?thesis
    using root_boundary_single_unit [OF h1 h2 h3 X] ok by (simp add: nm ts)
qed

subsection \<open>Naming and classification\<close>

text \<open>
  C9. \<open>toPascalCase\<close> never returns a text that starts with a digit or holds white space or a
  hyphen. The hyphen part fails on the code: a hyphen that ends the cleaned text has no
  character after it for \<open>/[\s-]+(.)/\<close> to capture, so it stays. The input \<open>a-\<close> gives
  \<open>A-\<close>.
\<close>

theorem toPascalCase_keeps_trailing_hyphen:
  "toPascalCase ''a-'' = ''A-'' \<and> CHR ''-'' \<in> set (toPascalCase ''a-'')"
  by code_simp

text \<open>
  C5. After classification the state variables and the event handlers hold at most one entry
  per identifier. The analyzer appends without looking: a node whose name matches two
  keyword sets (\<open>Toggle Accordion\<close>) and two nodes with one name (\<open>Search Input\<close>) each leave
  two entries with one identifier.
\<close>

theorem analyze_repeats_identifiers:
  "map sv_id (fst (snd (analyze (Node (blank\<lparr>node_id := ''1:1'', node_name := ''Toggle Accordion''\<rparr>) []) ([], [], []))))
     = [''toggleAccordion'', ''toggleAccordion'']
   \<and> map eh_id (snd (snd (analyze (Node (blank\<lparr>node_id := ''1:1'', node_name := ''Toggle Accordion''\<rparr>) []) ([], [], []))))
     = [''toggleAccordion'', ''toggleAccordion'']
   \<and> map sv_id (fst (snd (analyze
         (Node (blank\<lparr>node_id := ''0:1'', node_name := ''Page''\<rparr>)
            [Node (blank\<lparr>node_id := ''1:1'', node_name := ''Search Input''\<rparr>) [],
             Node (blank\<lparr>node_id := ''1:2'', node_name := ''Search Input''\<rparr>) []]) ([], [], []))))
     = [''searchInput'', ''searchInput'']"
  by code_simp

subsection \<open>The style sheet\<close>
































text \<open>
  The conditions on the two nodes are needed. A class name is processed once, by the first
  node that carries it: when an earlier frame with another corner radius has taken the
  class \<open>.c\<close>, the frames \<open>frame_c\<close> and \<open>frame_d\<close> share their style key and still get no
  common rule; when that frame comes later, they do. Two frames with a size and nothing
  else share the style key \<open>w:10|h:20\<close> but have no rule text, so the sheet holds the reset
  block only. And the body of a common rule is that of the first node: a frame that clips
  its content has the style key of one that does not, and the common rule says
  \<open>overflow: hidden\<close> only when the clipping frame comes first.
\<close>

lemma reused_class_not_merged:
  "getStyleKey frame_c = getStyleKey frame_d
   \<and> getClassName frame_c3 True = getClassName frame_c True
   \<and> css_blocks reused_class_doc =
        [getBaseResetStyles,
         ''.c {'' @ nl @ ''  border-radius: 3px;'' @ nl @ ''}'',
         ''.d {'' @ nl @ ''  border-radius: 5px;'' @ nl @ ''}'']"
  by code_simp

lemma ruleless_nodes_not_merged:
  "getStyleKey bare_e = Some ''w:10|h:20'' \<and> getStyleKey bare_f = Some ''w:10|h:20''
   \<and> \<not> styled bare_e \<and> \<not> styled bare_f
   \<and> css_blocks bare_pair_doc = [getBaseResetStyles]"
  by code_simp

lemma late_class_still_merged:
  "css_blocks late_class_doc =
     [getBaseResetStyles, ''.c, .d {'' @ nl @ ''border-radius: 5px;'' @ nl @ ''}'']"
  by code_simp

lemma first_body_wins:
  "getStyleKey clipped_d = getStyleKey frame_c
   \<and> css_blocks clip_last_doc =
        [getBaseResetStyles, ''.c, .d {'' @ nl @ ''border-radius: 5px;'' @ nl @ ''}'']
   \<and> css_blocks clip_first_doc =
        [getBaseResetStyles,
         ''.d, .c {'' @ nl @ ''border-radius: 5px;'' @ nl @ ''overflow: hidden;'' @ nl @ ''}'']"
  by code_simp

end
